theory Spec2Isabelle
  imports Main "HOL-Library.Sublist"
begin

section \<open>JavaScript values\<close>

text \<open>
  Strings are lists of 8-bit characters. A property that may be absent is an \<open>option\<close>:
  \<open>None\<close> stands for \<open>undefined\<close>. Numbers that the modelled code reads are status codes,
  byte counts and clock readings, so they are integers or naturals. The truthiness tests
  of the source (\<open>if (x)\<close>, \<open>x && y\<close>, \<open>x || y\<close>) are written out: a number is truthy
  when it is not zero, a string when it is not empty.
\<close>

datatype json =
    JString string
  | JNumber int
  | JBool bool
  | JUndefined
  | JArray "json list"
  | JObject "(string \<times> json) list"

text \<open>Truthiness of a value that a configuration object holds.\<close>

fun truthy :: "json \<Rightarrow> bool" where
  "truthy (JString s) = (s \<noteq> [])"
| "truthy (JNumber n) = (n \<noteq> 0)"
| "truthy (JBool b) = b"
| "truthy JUndefined = False"
| "truthy (JArray xs) = True"
| "truthy (JObject kvs) = True"

definition truthy_num :: "int option \<Rightarrow> bool" where
  "truthy_num v = (case v of None \<Rightarrow> False | Some n \<Rightarrow> n \<noteq> 0)"

definition truthy_str :: "string option \<Rightarrow> bool" where
  "truthy_str v = (case v of None \<Rightarrow> False | Some s \<Rightarrow> s \<noteq> [])"

text \<open>\<open>a || b\<close> on optional numbers and on optional strings.\<close>

definition num_or :: "int option \<Rightarrow> int option \<Rightarrow> int option" where
  "num_or a b = (if truthy_num a then a else b)"

definition str_or :: "string option \<Rightarrow> string option \<Rightarrow> string option" where
  "str_or a b = (if truthy_str a then a else b)"

text \<open>
  Reading a property of an object literal: when a key is written twice, the later
  value is the one the object holds.
\<close>

definition object_get :: "('k \<times> 'v) list \<Rightarrow> 'k \<Rightarrow> 'v option" where
  "object_get kvs k = map_of (rev kvs) k"

text \<open>\<open>String.prototype.toLowerCase\<close> on the ASCII letters.\<close>

definition lower_char :: "char \<Rightarrow> char" where
  "lower_char c =
     (let n = (of_char c :: nat) in if 65 \<le> n \<and> n \<le> 90 then char_of (n + 32) else c)"

definition toLowerCase :: "string \<Rightarrow> string" where
  "toLowerCase s = map lower_char s"

text \<open>\<open>s.includes(pat)\<close>: \<open>pat\<close> occurs in \<open>s\<close> as a contiguous run.\<close>

fun str_includes :: "string \<Rightarrow> string \<Rightarrow> bool" where
  "str_includes [] pat = (pat = [])"
| "str_includes (c # cs) pat = (prefix pat (c # cs) \<or> str_includes cs pat)"

text \<open>\<open>xs.join(sep)\<close>.\<close>

fun join :: "string \<Rightarrow> string list \<Rightarrow> string" where
  "join sep [] = []"
| "join sep [x] = x"
| "join sep (x # y # ys) = x @ sep @ join sep (y # ys)"

text \<open>Decimal rendering of a natural number, as a template literal prints it.\<close>

definition digit_char :: "nat \<Rightarrow> char" where
  "digit_char d = ''0123456789'' ! d"

function show_nat :: "nat \<Rightarrow> string" where
  "show_nat n =
     (if n < 10 then [digit_char n]
      else show_nat (n div 10) @ [digit_char (n mod 10)])"
  by pat_completeness auto
termination
  by (relation "measure id") auto

declare show_nat.simps [simp del]

definition show_int :: "int \<Rightarrow> string" where
  "show_int i = (if i < 0 then CHR ''-'' # show_nat (nat (- i)) else show_nat (nat i))"


section \<open>Error classification (middleware/errorHandler)\<close>

text \<open>
  The failure value handed to the error middleware. \<open>e_constructor_name\<close> is
  \<open>error.constructor.name\<close>, \<open>None\<close> when there is no constructor or it has no name.
\<close>

record js_error =
  e_status :: "int option"
  e_statusCode :: "int option"
  e_name :: "string option"
  e_constructor_name :: "string option"
  e_code :: "string option"
  e_message :: "string option"
  e_stack :: "string option"

datatype category = client | server

record classification =
  status :: int
  category :: category

definition mk :: "int \<Rightarrow> category \<Rightarrow> classification" where
  "mk s c = \<lparr>status = s, category = c\<rparr>"

text \<open>
  What \<open>classifyError\<close> returns: a classification object, or, when the table lookup
  finds a member that every object inherits, that member (\<open>Member n\<close> is the value of
  \<open>Object.prototype[n]\<close>: a function, or for \<open>__proto__\<close> the prototype itself).
\<close>

datatype classified = Entry classification | Member string

definition ERROR_CLASSIFICATIONS :: "(string \<times> classification) list" where
  "ERROR_CLASSIFICATIONS =
    [(''ValidationError'', mk 400 client),
     (''CastError'', mk 400 client),
     (''SyntaxError'', mk 400 client),
     (''URIError'', mk 400 client),
     (''MulterError'', mk 400 client),
     (''UnauthorizedError'', mk 401 client),
     (''JsonWebTokenError'', mk 401 client),
     (''TokenExpiredError'', mk 401 client),
     (''ForbiddenError'', mk 403 client),
     (''NotFoundError'', mk 404 client),
     (''CastError'', mk 404 client),
     (''MethodNotAllowedError'', mk 405 client),
     (''NotAcceptableError'', mk 406 client),
     (''UnsupportedMediaTypeError'', mk 415 client),
     (''PayloadTooLargeError'', mk 413 client),
     (''TooManyRequestsError'', mk 429 client),
     (''ConflictError'', mk 409 client),
     (''InternalServerError'', mk 500 server),
     (''NotImplementedError'', mk 501 server),
     (''BadGatewayError'', mk 502 server),
     (''ServiceUnavailableError'', mk 503 server),
     (''GatewayTimeoutError'', mk 504 server)]"

definition SAFE_ERROR_MESSAGES :: "(int \<times> string) list" where
  "SAFE_ERROR_MESSAGES =
    [(400, ''Bad Request - Invalid request format or parameters''),
     (401, ''Unauthorized - Authentication required''),
     (403, ''Forbidden - Access denied''),
     (404, ''Not Found - The requested resource was not found''),
     (405, ''Method Not Allowed - HTTP method not supported for this endpoint''),
     (406, ''Not Acceptable - Requested format not available''),
     (409, ''Conflict - Resource conflict detected''),
     (413, ''Payload Too Large - Request payload exceeds size limit''),
     (415, ''Unsupported Media Type - Content type not supported''),
     (429, ''Too Many Requests - Rate limit exceeded''),
     (500, ''Internal Server Error - An unexpected error occurred''),
     (501, ''Not Implemented - Feature not implemented''),
     (502, ''Bad Gateway - External service error''),
     (503, ''Service Unavailable - Service temporarily unavailable''),
     (504, ''Gateway Timeout - External service timeout'')]"

text \<open>
  The names under which every object literal finds an inherited member, all of them
  truthy values.
\<close>

definition inherited_names :: "string list" where
  "inherited_names =
    [''constructor'', ''__defineGetter__'', ''__defineSetter__'', ''hasOwnProperty'',
     ''__lookupGetter__'', ''__lookupSetter__'', ''isPrototypeOf'', ''propertyIsEnumerable'',
     ''toString'', ''valueOf'', ''__proto__'', ''toLocaleString'']"

text \<open>
  The lookup \<open>error.name && ERROR_CLASSIFICATIONS[error.name]\<close>: an own key of the table
  first, then the members that the table inherits. \<open>None\<close> is a falsy result.
\<close>

definition lookup_name :: "string option \<Rightarrow> classified option" where
  "lookup_name n =
     (case n of
        None \<Rightarrow> None
      | Some s \<Rightarrow>
          if s = [] then None
          else (case object_get ERROR_CLASSIFICATIONS s of
                  Some c \<Rightarrow> Some (Entry c)
                | None \<Rightarrow> if s \<in> set inherited_names then Some (Member s) else None))"

text \<open>The \<open>switch (error.code)\<close> of the fault-code step.\<close>

definition classify_code :: "string \<Rightarrow> classification" where
  "classify_code c =
     (if c = ''EADDRINUSE'' \<or> c = ''ECONNREFUSED'' \<or> c = ''ENOTFOUND'' \<or> c = ''ETIMEDOUT''
        then mk 503 server
      else if c = ''EACCES'' then mk 403 client
      else mk 500 server)"

text \<open>The message step, applied to a truthy \<open>error.message\<close>; \<open>None\<close> falls through.\<close>

definition classify_message :: "string \<Rightarrow> classification option" where
  "classify_message m =
     (let message = toLowerCase m in
      if str_includes message ''validation'' \<or> str_includes message ''invalid''
        then Some (mk 400 client)
      else if str_includes message ''unauthorized'' \<or> str_includes message ''authentication''
        then Some (mk 401 client)
      else if str_includes message ''forbidden'' \<or> str_includes message ''permission''
        then Some (mk 403 client)
      else if str_includes message ''not found'' then Some (mk 404 client)
      else None)"

definition classifyError :: "js_error \<Rightarrow> classified" where
  "classifyError error =
     (if truthy_num (e_status error) \<or> truthy_num (e_statusCode error) then
        (case num_or (e_status error) (e_statusCode error) of
           Some s \<Rightarrow> Entry (mk s (if 400 \<le> s \<and> s < 500 then client else server))
         | None \<Rightarrow> Entry (mk 500 server))
      else case lookup_name (e_name error) of
        Some found \<Rightarrow> found
      | None \<Rightarrow>
         (case lookup_name (e_constructor_name error) of
            Some found \<Rightarrow> found
          | None \<Rightarrow>
             if truthy_str (e_code error) then
               (case e_code error of
                  Some c \<Rightarrow> Entry (classify_code c)
                | None \<Rightarrow> Entry (mk 500 server))
             else if truthy_str (e_message error) then
               (case e_message error of
                  Some m \<Rightarrow>
                    (case classify_message m of
                       Some c \<Rightarrow> Entry c
                     | None \<Rightarrow> Entry (mk 500 server))
                | None \<Rightarrow> Entry (mk 500 server))
             else Entry (mk 500 server)))"

subsection \<open>Client-facing message\<close>

text \<open>
  The patterns of \<open>sensitivePatterns\<close> are of two shapes: a literal (\<open>/password/i\<close>) and
  two literals with \<open>.*\<close> between them (\<open>/file.*path/i\<close>). The dot matches every
  character but a line terminator. With the \<open>i\<close> flag an ASCII pattern matches a text
  exactly when it matches the text with its ASCII letters in lower case.
\<close>

datatype pattern = Lit string | LitGapLit string string

definition sensitivePatterns :: "pattern list" where
  "sensitivePatterns =
    [Lit ''password'', Lit ''token'', Lit ''secret'', Lit ''key'', Lit ''database'',
     Lit ''connection'', Lit ''internal'', Lit ''stack'', LitGapLit ''file'' ''path'',
     Lit ''directory'', Lit ''config'', Lit ''env'']"

definition line_terminator :: "char \<Rightarrow> bool" where
  "line_terminator c = (c = CHR 0x0A \<or> c = CHR 0x0D)"

text \<open>\<open>.*b\<close> matched from the start of the text.\<close>

fun gap_then :: "string \<Rightarrow> string \<Rightarrow> bool" where
  "gap_then [] b = (b = [])"
| "gap_then (c # cs) b = (prefix b (c # cs) \<or> (\<not> line_terminator c \<and> gap_then cs b))"

text \<open>\<open>a.*b\<close> matched somewhere in the text.\<close>

fun lit_gap_lit :: "string \<Rightarrow> string \<Rightarrow> string \<Rightarrow> bool" where
  "lit_gap_lit a b [] = (a = [] \<and> b = [])"
| "lit_gap_lit a b (c # cs) =
     ((prefix a (c # cs) \<and> gap_then (drop (length a) (c # cs)) b) \<or> lit_gap_lit a b cs)"

definition pattern_test :: "pattern \<Rightarrow> string \<Rightarrow> bool" where
  "pattern_test p message =
     (case p of
        Lit a \<Rightarrow> str_includes (toLowerCase message) a
      | LitGapLit a b \<Rightarrow> lit_gap_lit a b (toLowerCase message))"

definition containsSensitiveInfo :: "string \<Rightarrow> bool" where
  "containsSensitiveInfo message = list_ex (\<lambda>p. pattern_test p message) sensitivePatterns"

definition generateSafeErrorMessage :: "int \<Rightarrow> js_error \<Rightarrow> string" where
  "generateSafeErrorMessage statusCode error =
     (case object_get SAFE_ERROR_MESSAGES statusCode of
        Some safe \<Rightarrow> safe
      | None \<Rightarrow>
         (case (if 400 \<le> statusCode \<and> statusCode < 500 \<and> truthy_str (e_message error)
                then e_message error else None) of
            Some message \<Rightarrow>
              if \<not> containsSensitiveInfo message \<and> length message < 200
                then ''Bad Request - '' @ message
              else ''Bad Request - Invalid request format or parameters''
          | None \<Rightarrow>
              if 400 \<le> statusCode \<and> statusCode < 500
                then ''Bad Request - Invalid request format or parameters''
              else ''Internal Server Error - An unexpected error occurred''))"

subsection \<open>Requests, responses, the clock and the logger\<close>

text \<open>
  One request reads the clock and the random sources; the record holds the readings:
  \<open>Date.now()\<close>, \<open>new Date().toISOString()\<close>, \<open>Math.random().toString(36)\<close> (such as
  \<open>0.4fzyo82mv\<close>) and the value of \<open>uuidv4()\<close>.
\<close>

record clock =
  now_ms :: nat
  now_iso :: string
  random36 :: string
  uuid4 :: string

text \<open>\<open>Math.random().toString(36).substr(2, 9)\<close>.\<close>

definition random_suffix :: "clock \<Rightarrow> string" where
  "random_suffix clk = take 9 (drop 2 (random36 clk))"

text \<open>
  The request as the middleware reads it. Header names are in lower case, as Node
  stores them. \<open>req_body\<close> is the JSON text of the parsed body, so that its length is
  \<open>JSON.stringify(req.body).length\<close>, and \<open>None\<close> when the body is absent or falsy;
  \<open>req_remoteAddress\<close> is \<open>req.connection.remoteAddress\<close>.
\<close>

record request =
  req_method :: string
  req_url :: string
  req_originalUrl :: "string option"
  req_headers :: "(string \<times> string) list"
  req_correlationId :: "string option"
  req_id :: "string option"
  req_ip :: "string option"
  req_remoteAddress :: "string option"
  req_query :: json
  req_params :: json
  req_body :: "string option"
  req_startTime :: "nat option"

definition req_header :: "request \<Rightarrow> string \<Rightarrow> string option" where
  "req_header req n = map_of (req_headers req) n"

text \<open>\<open>a || 'literal'\<close>, and a possibly undefined string as a JSON value and in a template.\<close>

definition or_else :: "string option \<Rightarrow> string \<Rightarrow> string" where
  "or_else a d = (case a of None \<Rightarrow> d | Some s \<Rightarrow> if s = [] then d else s)"

definition jstr :: "string option \<Rightarrow> json" where
  "jstr a = (case a of None \<Rightarrow> JUndefined | Some s \<Rightarrow> JString s)"

definition tmpl :: "string option \<Rightarrow> string" where
  "tmpl a = (case a of None \<Rightarrow> ''undefined'' | Some s \<Rightarrow> s)"

text \<open>
  The Express response object: the status code, the headers set so far, whether the
  head has gone out, and the bodies written to the client, oldest first.
  \<open>res.status\<close> only stores the code. \<open>res.set\<close> and \<open>res.json\<close> throw once the head
  has gone out, and Node refuses to write a head whose status code is outside 100..999.
\<close>

record response =
  res_statusCode :: int
  res_headers :: "(string \<times> string) list"
  headersSent :: bool
  sent :: "json list"

text \<open>
  A thrown error, with its \<open>name\<close> and \<open>message\<close>: \<open>Exn\<close> for an error whose
  constructor carries its name (\<open>Error\<close>, \<open>TypeError\<close>), \<open>NodeError\<close> for the errors
  that Node raises itself, whose constructor is named \<open>NodeError\<close>.
\<close>

datatype js_exn =
    Exn (exn_name: string) (exn_message: string)
  | NodeError (exn_name: string) (exn_message: string)

definition exn_constructor_name :: "js_exn \<Rightarrow> string" where
  "exn_constructor_name e = (case e of Exn n m \<Rightarrow> n | NodeError n m \<Rightarrow> ''NodeError'')"

definition headers_sent_exn :: js_exn where
  "headers_sent_exn = NodeError ''Error'' ''Cannot set headers after they are sent to the client''"

definition invalid_status_exn :: "int \<Rightarrow> js_exn" where
  "invalid_status_exn s = NodeError ''RangeError'' (''Invalid status code: '' @ show_int s)"

definition res_status :: "int \<Rightarrow> response \<Rightarrow> response" where
  "res_status c res = res\<lparr>res_statusCode := c\<rparr>"

definition set_header :: "string \<Rightarrow> string \<Rightarrow> (string \<times> string) list \<Rightarrow> (string \<times> string) list" where
  "set_header n v hs = filter (\<lambda>kv. fst kv \<noteq> n) hs @ [(n, v)]"

definition res_set :: "(string \<times> string) list \<Rightarrow> response \<Rightarrow> js_exn + response" where
  "res_set hs res =
     (if headersSent res then Inl headers_sent_exn
      else Inr (res\<lparr>res_headers := foldl (\<lambda>acc kv. set_header (fst kv) (snd kv) acc) (res_headers res) hs\<rparr>))"

definition res_json :: "json \<Rightarrow> response \<Rightarrow> js_exn + response" where
  "res_json body res =
     (if headersSent res then Inl headers_sent_exn
      else if res_statusCode res < 100 \<or> 999 < res_statusCode res
        then Inl (invalid_status_exn (res_statusCode res))
      else Inr (res\<lparr>headersSent := True, sent := sent res @ [body]\<rparr>))"

text \<open>
  A log line is the level, the message and the metadata object. A logger method either
  returns, and the line is in the log, or throws. The object that a module binds to
  \<open>logger\<close> is a parameter: \<open>lg_error\<close> and \<open>lg_info\<close> say, for a message, which
  exception the call raises, if any.
\<close>

record log_line =
  ll_level :: string
  ll_message :: string
  ll_meta :: "(string \<times> json) list"

record logger =
  lg_error :: "string \<Rightarrow> js_exn option"
  lg_info :: "string \<Rightarrow> js_exn option"

definition log_call :: "(string \<Rightarrow> js_exn option) \<Rightarrow> log_line \<Rightarrow> log_line list \<Rightarrow> js_exn + log_line list" where
  "log_call method line log =
     (case method (ll_message line) of Some e \<Rightarrow> Inl e | None \<Rightarrow> Inr (log @ [line]))"

text \<open>A Winston logger instance: every method returns.\<close>

definition winston_logger :: logger where
  "winston_logger = \<lparr>lg_error = (\<lambda>m. None), lg_info = (\<lambda>m. None)\<rparr>"

text \<open>
  The object that \<open>config/logger\<close> exports has the keys \<open>logger\<close>, \<open>createMorganStream\<close>,
  \<open>createChildLogger\<close>, \<open>addCorrelationId\<close>, \<open>setLogLevel\<close>, \<open>addFileLogging\<close>, \<open>close\<close>
  and \<open>levels\<close>. It has no \<open>error\<close> and no \<open>info\<close>: calling either raises a TypeError.
  The error handler and the logging middleware bind \<open>logger\<close> to this object.
\<close>

definition config_logger_exports :: logger where
  "config_logger_exports =
     \<lparr>lg_error = (\<lambda>m. Some (Exn ''TypeError'' ''logger.error is not a function'')),
      lg_info = (\<lambda>m. Some (Exn ''TypeError'' ''logger.info is not a function''))\<rparr>"

record handler_state =
  st_res :: response
  st_log :: "log_line list"

datatype outcome = Returned | Threw js_exn

subsection \<open>The error handler\<close>

record request_context =
  ctx_method :: string
  ctx_url :: string
  ctx_userAgent :: "string option"
  ctx_ip :: "string option"
  ctx_correlationId :: string
  ctx_requestId :: "string option"
  ctx_timestamp :: string
  ctx_headers :: "(string \<times> json) list"
  ctx_query :: json
  ctx_params :: json
  ctx_body :: "string option"

definition extractRequestContext :: "clock \<Rightarrow> request \<Rightarrow> request_context" where
  "extractRequestContext clk req =
     \<lparr>ctx_method = req_method req,
      ctx_url = or_else (req_originalUrl req) (req_url req),
      ctx_userAgent = req_header req ''user-agent'',
      ctx_ip = str_or (req_ip req) (req_remoteAddress req),
      ctx_correlationId =
        or_else (str_or (req_correlationId req) (req_header req ''x-correlation-id'')) ''unknown'',
      ctx_requestId = str_or (req_id req) (req_header req ''x-request-id''),
      ctx_timestamp = now_iso clk,
      ctx_headers =
        [(''content-type'', jstr (req_header req ''content-type'')),
         (''accept'', jstr (req_header req ''accept'')),
         (''origin'', jstr (req_header req ''origin'')),
         (''referer'', jstr (req_header req ''referer''))],
      ctx_query = req_query req,
      ctx_params = req_params req,
      ctx_body =
        (case req_body req of
           None \<Rightarrow> None
         | Some b \<Rightarrow> if req_method req \<noteq> ''GET'' \<and> length b < 1000 then Some b else None)\<rparr>"

definition context_json :: "request_context \<Rightarrow> json" where
  "context_json c =
     JObject
      [(''method'', JString (ctx_method c)), (''url'', JString (ctx_url c)),
       (''userAgent'', jstr (ctx_userAgent c)), (''ip'', jstr (ctx_ip c)),
       (''correlationId'', JString (ctx_correlationId c)),
       (''requestId'', jstr (ctx_requestId c)),
       (''timestamp'', JString (ctx_timestamp c)),
       (''headers'', JObject (ctx_headers c)),
       (''query'', ctx_query c), (''params'', ctx_params c),
       (''body'', jstr (ctx_body c))]"

definition category_name :: "category \<Rightarrow> string" where
  "category_name c = (case c of client \<Rightarrow> ''client'' | server \<Rightarrow> ''server'')"

definition category_upper :: "category \<Rightarrow> string" where
  "category_upper c = (case c of client \<Rightarrow> ''CLIENT'' | server \<Rightarrow> ''SERVER'')"

record log_entry =
  le_level :: string
  le_message :: string
  le_error :: "(string \<times> json) list"
  le_request :: request_context
  le_timestamp :: string
  le_correlationId :: string
  le_errorId :: string

text \<open>
  An inherited member has no \<open>category\<close>: for it
  \<open>classification.category.toUpperCase()\<close> raises a TypeError, and the function throws.
\<close>

definition undefined_toUpperCase :: js_exn where
  "undefined_toUpperCase =
     Exn ''TypeError'' ''Cannot read properties of undefined (reading toUpperCase)''"

definition createErrorLogEntry :: "clock \<Rightarrow> js_error \<Rightarrow> request \<Rightarrow> classified \<Rightarrow> js_exn + log_entry" where
  "createErrorLogEntry clk error req classification =
     (let requestContext = extractRequestContext clk req in
      case classification of
        Member n \<Rightarrow> Inl undefined_toUpperCase
      | Entry c \<Rightarrow>
          Inr \<lparr>le_level = ''error'',
               le_message = category_upper (category c) @ '' ERROR: '' @ tmpl (e_message error),
               le_error =
                 [(''name'', jstr (e_name error)), (''message'', jstr (e_message error)),
                  (''stack'', jstr (e_stack error)), (''code'', jstr (e_code error)),
                  (''status'', JNumber (status c)),
                  (''category'', JString (category_name (category c)))],
               le_request = requestContext,
               le_timestamp = now_iso clk,
               le_correlationId = ctx_correlationId requestContext,
               le_errorId = ''err_'' @ show_nat (now_ms clk) @ ''_'' @ random_suffix clk\<rparr>)"

definition createErrorResponse :: "clock \<Rightarrow> int \<Rightarrow> string \<Rightarrow> string option \<Rightarrow> string \<Rightarrow> (string \<times> json) list" where
  "createErrorResponse clk statusCode message correlationId errorId =
     [(''error'', JBool True),
      (''status'', JNumber statusCode),
      (''message'', JString message),
      (''timestamp'', JString (now_iso clk)),
      (''correlationId'', JString (or_else correlationId ''unknown''))]
     @ (if 500 \<le> statusCode then [(''errorId'', JString errorId)] else [])
     @ (if statusCode = 429 then [(''retryAfter'', JString ''60s'')] else [])
     @ (if statusCode = 413 then [(''maxSize'', JString ''10MB'')] else [])"

definition error_line :: "js_error \<Rightarrow> classification \<Rightarrow> log_entry \<Rightarrow> log_line" where
  "error_line err classification logEntry =
     \<lparr>ll_level = ''error'', ll_message = le_message logEntry,
      ll_meta =
        [(''error'', JObject (le_error logEntry)),
         (''request'', context_json (le_request logEntry)),
         (''timestamp'', JString (le_timestamp logEntry)),
         (''correlationId'', JString (le_correlationId logEntry)),
         (''errorId'', JString (le_errorId logEntry)),
         (''stackTrace'',
            (if category classification = server then jstr (e_stack err) else JUndefined))]\<rparr>"

definition handled_line :: "clock \<Rightarrow> request \<Rightarrow> classification \<Rightarrow> request_context \<Rightarrow> log_entry \<Rightarrow> log_line" where
  "handled_line clk req classification requestContext logEntry =
     \<lparr>ll_level = ''info'', ll_message = ''Error handled successfully'',
      ll_meta =
        [(''errorId'', JString (le_errorId logEntry)),
         (''status'', JNumber (status classification)),
         (''category'', JString (category_name (category classification))),
         (''correlationId'', JString (ctx_correlationId requestContext)),
         (''responseTime'',
            JNumber (int (now_ms clk)
              - int (case req_startTime req of
                       None \<Rightarrow> now_ms clk
                     | Some t \<Rightarrow> if t = 0 then now_ms clk else t)))]\<rparr>"

definition security_headers :: "(string \<times> string) list" where
  "security_headers =
     [(''X-Content-Type-Options'', ''nosniff''),
      (''X-Frame-Options'', ''DENY''),
      (''X-XSS-Protection'', ''1; mode=block''),
      (''Cache-Control'', ''no-cache, no-store, must-revalidate''),
      (''Pragma'', ''no-cache''),
      (''Expires'', ''0'')]"

text \<open>
  The \<open>try\<close> block: the exception that leaves it, if any, and the state then. When
  \<open>createErrorLogEntry\<close> has returned, the classification is an object; the branch for
  a member is never taken.
\<close>

definition handler_try :: "logger \<Rightarrow> clock \<Rightarrow> js_error \<Rightarrow> request \<Rightarrow> handler_state \<Rightarrow> js_exn option \<times> handler_state" where
  "handler_try logger clk err req st =
     (let classification = classifyError err;
          requestContext = extractRequestContext clk req
      in case createErrorLogEntry clk err req classification of
           Inl e \<Rightarrow> (Some e, st)
         | Inr logEntry \<Rightarrow>
            (case classification of
               Member n \<Rightarrow> (Some undefined_toUpperCase, st)
             | Entry c \<Rightarrow>
                (case log_call (lg_error logger) (error_line err c logEntry) (st_log st) of
                   Inl e \<Rightarrow> (Some e, st)
                 | Inr log1 \<Rightarrow>
                    (let safeMessage = generateSafeErrorMessage (status c) err;
                         errorResponse =
                           createErrorResponse clk (status c) safeMessage
                             (Some (ctx_correlationId requestContext)) (le_errorId logEntry);
                         res1 = res_status (status c) (st_res st)
                     in case res_set security_headers res1 of
                          Inl e \<Rightarrow> (Some e, \<lparr>st_res = res1, st_log = log1\<rparr>)
                        | Inr res2 \<Rightarrow>
                           (case res_json (JObject errorResponse) res2 of
                              Inl e \<Rightarrow> (Some e, \<lparr>st_res = res2, st_log = log1\<rparr>)
                            | Inr res3 \<Rightarrow>
                               (case log_call (lg_info logger)
                                       (handled_line clk req c requestContext logEntry) log1 of
                                  Inl e \<Rightarrow> (Some e, \<lparr>st_res = res3, st_log = log1\<rparr>)
                                | Inr log2 \<Rightarrow> (None, \<lparr>st_res = res3, st_log = log2\<rparr>)))))))"

definition critical_line :: "clock \<Rightarrow> js_error \<Rightarrow> js_exn \<Rightarrow> log_line" where
  "critical_line clk err handlerError =
     \<lparr>ll_level = ''error'', ll_message = ''Critical error in error handler middleware'',
      ll_meta =
        [(''originalError'',
            JObject [(''name'', jstr (e_name err)), (''message'', jstr (e_message err)),
                     (''stack'', jstr (e_stack err))]),
         (''handlerError'',
            JObject [(''name'', JString (exn_name handlerError)),
                     (''message'', JString (exn_message handlerError))]),
         (''timestamp'', JString (now_iso clk)),
         (''criticalFailure'', JBool True)]\<rparr>"

definition minimal_body :: "clock \<Rightarrow> json" where
  "minimal_body clk =
     JObject
      [(''error'', JBool True), (''status'', JNumber 500),
       (''message'', JString ''Internal Server Error - An unexpected error occurred''),
       (''timestamp'', JString (now_iso clk))]"

definition centralizedErrorHandler :: "logger \<Rightarrow> clock \<Rightarrow> js_error \<Rightarrow> request \<Rightarrow> handler_state \<Rightarrow> outcome \<times> handler_state" where
  "centralizedErrorHandler logger clk err req st =
     (case handler_try logger clk err req st of
        (None, st1) \<Rightarrow> (Returned, st1)
      | (Some handlerError, st1) \<Rightarrow>
         (case log_call (lg_error logger) (critical_line clk err handlerError) (st_log st1) of
            Inl e \<Rightarrow> (Threw e, st1)
          | Inr log2 \<Rightarrow>
             if \<not> headersSent (st_res st1) then
               (let res1 = res_status 500 (st_res st1) in
                case res_json (minimal_body clk) res1 of
                  Inl e \<Rightarrow> (Threw e, \<lparr>st_res = res1, st_log = log2\<rparr>)
                | Inr res2 \<Rightarrow> (Returned, \<lparr>st_res = res2, st_log = log2\<rparr>))
             else (Returned, \<lparr>st_res = st_res st1, st_log = log2\<rparr>)))"

section \<open>Health checks (routes/health)\<close>

text \<open>
  The process as the checks read it: \<open>process.uptime()\<close> (seconds, with a fraction:
  held as the JSON number it is sent as), \<open>process.memoryUsage()\<close> (byte counts),
  \<open>process.cpuUsage()\<close> (user and system microseconds), \<open>process.version\<close> as major, minor and patch (Node prints it as
  \<open>v18.17.0\<close>, and \<open>parseInt\<close> of the text between the \<open>v\<close> and the first dot is the
  major number), \<open>process.env\<close>, and what \<open>require\<close> does for the two packages the
  dependency check loads: the message of the error that \<open>require('express')\<close> raises,
  if it raises one, and whether \<open>require('winston')\<close> succeeds. The reads of the
  process do not throw, so a check never reaches the \<open>catch\<close> branch that would turn a
  throw into an unhealthy result; the \<open>catch\<close> branches around \<open>require\<close>, which
  can run, are in the model.
\<close>

record memory_usage =
  mu_rss :: nat
  mu_heapTotal :: nat
  mu_heapUsed :: nat
  mu_external :: nat
  mu_arrayBuffers :: nat

record process_state =
  p_uptime :: json
  p_memoryUsage :: memory_usage
  p_cpuUsage :: "nat \<times> nat"
  p_pid :: nat
  p_version :: "nat \<times> nat \<times> nat"
  p_platform :: string
  p_arch :: string
  p_env :: "string \<Rightarrow> string option"
  p_express_error :: "string option"
  p_winston_loads :: bool

definition version_string :: "nat \<times> nat \<times> nat \<Rightarrow> string" where
  "version_string v =
     (case v of (major, minor, patch) \<Rightarrow>
        ''v'' @ show_nat major @ ''.'' @ show_nat minor @ ''.'' @ show_nat patch)"

text \<open>
  The router binds \<open>config\<close> in a \<open>try\<close>: to the export of \<open>config/index\<close> when that
  module loads, and otherwise to an object literal built from \<open>process.env\<close>. The
  export is the frozen object with the keys \<open>server\<close>, \<open>app\<close>, \<open>logging\<close>, \<open>middleware\<close>,
  \<open>monitoring\<close>, \<open>cluster\<close> and \<open>utils\<close>; the environment mode is at \<open>app.env\<close>, the
  host at \<open>server.host\<close>, the port at \<open>server.port\<close>. The router reads the three keys
  \<open>NODE_ENV\<close>, \<open>HOST\<close> and \<open>PORT\<close> of the top level, which the export does not have.
\<close>

record config_module =
  app_env :: string
  server_host :: string
  server_port :: nat

datatype config_binding = ModuleExport config_module | Fallback

datatype config_key = NODE_ENV | HOST | PORT

definition key_name :: "config_key \<Rightarrow> string" where
  "key_name k = (case k of NODE_ENV \<Rightarrow> ''NODE_ENV'' | HOST \<Rightarrow> ''HOST'' | PORT \<Rightarrow> ''PORT'')"

text \<open>
  \<open>config[key]\<close> for the three keys: \<open>undefined\<close> on the export; on the fallback
  \<open>process.env.NODE_ENV || 'development'\<close>, \<open>process.env.PORT || 3000\<close> (the text of
  the variable, or the number 3000) and \<open>process.env.HOST || '127.0.0.1'\<close>.
\<close>

fun config_get :: "process_state \<Rightarrow> config_binding \<Rightarrow> config_key \<Rightarrow> json" where
  "config_get proc (ModuleExport m) k = JUndefined"
| "config_get proc Fallback NODE_ENV = JString (or_else (p_env proc ''NODE_ENV'') ''development'')"
| "config_get proc Fallback PORT =
     (if truthy_str (p_env proc ''PORT'') then jstr (p_env proc ''PORT'') else JNumber 3000)"
| "config_get proc Fallback HOST = JString (or_else (p_env proc ''HOST'') ''127.0.0.1'')"

record health_env =
  h_config :: config_binding
  h_process :: process_state
  h_clock :: clock

definition cfg :: "health_env \<Rightarrow> config_key \<Rightarrow> json" where
  "cfg env k = config_get (h_process env) (h_config env) k"

record check =
  healthy :: bool
  chk_message :: string
  chk_details :: "(string \<times> json) list"

definition memory_json :: "memory_usage \<Rightarrow> json" where
  "memory_json m =
     JObject [(''rss'', JNumber (int (mu_rss m))), (''heapTotal'', JNumber (int (mu_heapTotal m))),
              (''heapUsed'', JNumber (int (mu_heapUsed m))),
              (''external'', JNumber (int (mu_external m))),
              (''arrayBuffers'', JNumber (int (mu_arrayBuffers m)))]"

definition validateProcessHealth :: "health_env \<Rightarrow> check" where
  "validateProcessHealth env =
     (let proc = h_process env in
      \<lparr>healthy = True, chk_message = ''Process healthy'',
       chk_details =
         [(''uptime'', p_uptime proc),
          (''memory'', memory_json (p_memoryUsage proc)),
          (''pid'', JNumber (int (p_pid proc))),
          (''nodeVersion'', JString (version_string (p_version proc)))]\<rparr>)"

text \<open>
  \<open>Math.round(bytes / 1024 / 1024)\<close>: the quotient is exact in floating point, and
  rounding takes a half upwards.
\<close>

definition round_mb :: "nat \<Rightarrow> nat" where
  "round_mb bytes = (bytes + 524288) div 1048576"

definition memoryThresholdMB :: "health_env \<Rightarrow> nat" where
  "memoryThresholdMB env = (if cfg env NODE_ENV = JString ''production'' then 150 else 100)"

definition validateMemoryUsage :: "health_env \<Rightarrow> check" where
  "validateMemoryUsage env =
     (let memoryUsage = p_memoryUsage (h_process env);
          heapUsedMB = round_mb (mu_heapUsed memoryUsage);
          heapTotalMB = round_mb (mu_heapTotal memoryUsage);
          rssMB = round_mb (mu_rss memoryUsage);
          threshold = memoryThresholdMB env;
          within = (rssMB < threshold)
      in \<lparr>healthy = within,
          chk_message =
            (if within then ''Memory usage within limits''
             else ''Memory usage exceeded threshold: '' @ show_nat rssMB @ ''MB > ''
                  @ show_nat threshold @ ''MB''),
          chk_details =
            [(''heapUsed'', JString (show_nat heapUsedMB @ ''MB'')),
             (''heapTotal'', JString (show_nat heapTotalMB @ ''MB'')),
             (''rss'', JString (show_nat rssMB @ ''MB'')),
             (''threshold'', JString (show_nat threshold @ ''MB''))]\<rparr>)"

definition validateConfiguration :: "health_env \<Rightarrow> check" where
  "validateConfiguration env =
     (let requiredConfig = [NODE_ENV, HOST, PORT];
          missingConfig = filter (\<lambda>key. \<not> truthy (cfg env key)) requiredConfig
      in if 0 < length missingConfig then
           \<lparr>healthy = False,
            chk_message =
              ''Missing required configuration: '' @ join '', '' (map key_name missingConfig),
            chk_details = [(''missing'', JArray (map (\<lambda>key. JString (key_name key)) missingConfig))]\<rparr>
         else
           \<lparr>healthy = True, chk_message = ''Configuration validated'',
            chk_details =
              [(''environment'', cfg env NODE_ENV), (''host'', cfg env HOST),
               (''port'', cfg env PORT)]\<rparr>)"

definition validateEnvironment :: "health_env \<Rightarrow> check" where
  "validateEnvironment env =
     (let proc = h_process env;
          nodeVersion = version_string (p_version proc);
          majorVersion = fst (p_version proc);
          minVersion = 14;
          about = [(''nodeVersion'', JString nodeVersion),
                   (''platform'', JString (p_platform proc)), (''arch'', JString (p_arch proc))]
      in if majorVersion < minVersion then
           \<lparr>healthy = False,
            chk_message = ''Node.js version '' @ nodeVersion @ '' below minimum required v''
                          @ show_nat minVersion @ ''.x'',
            chk_details = about\<rparr>
         else \<lparr>healthy = True, chk_message = ''Environment validated'', chk_details = about\<rparr>)"

record dependency =
  available :: bool
  dep_message :: string
  dep_type :: "string option"

definition checkExpressDependency :: "health_env \<Rightarrow> dependency" where
  "checkExpressDependency env =
     (case p_express_error (h_process env) of
        None \<Rightarrow> \<lparr>available = True, dep_message = ''Express.js available'', dep_type = None\<rparr>
      | Some m \<Rightarrow>
          \<lparr>available = False, dep_message = ''Express.js not available: '' @ m, dep_type = None\<rparr>)"

definition checkLoggerDependency :: "health_env \<Rightarrow> dependency" where
  "checkLoggerDependency env =
     (if p_winston_loads (h_process env) then
        \<lparr>available = True, dep_message = ''Winston structured logging available'',
         dep_type = Some ''winston''\<rparr>
      else
        \<lparr>available = True, dep_message = ''Fallback console logging available'',
         dep_type = Some ''fallback''\<rparr>)"

definition checkConfigDependency :: "health_env \<Rightarrow> dependency" where
  "checkConfigDependency env =
     (case h_config env of
        ModuleExport m \<Rightarrow>
          \<lparr>available = True, dep_message = ''Configuration module available'',
           dep_type = Some ''module''\<rparr>
      | Fallback \<Rightarrow>
          \<lparr>available = True, dep_message = ''Environment variable configuration available'',
           dep_type = Some ''environment''\<rparr>)"

definition dependency_json :: "dependency \<Rightarrow> json" where
  "dependency_json d =
     JObject [(''available'', JBool (available d)), (''type'', jstr (dep_type d)),
              (''message'', JString (dep_message d))]"

definition validateDependencies :: "health_env \<Rightarrow> check" where
  "validateDependencies env =
     (let dependencies =
            [(''express'', checkExpressDependency env),
             (''logger'', checkLoggerDependency env),
             (''config'', checkConfigDependency env)];
          failedDeps = filter (\<lambda>kd. \<not> available (snd kd)) dependencies;
          shown = [(''dependencies'', JObject (map (\<lambda>kd. (fst kd, dependency_json (snd kd))) dependencies))]
      in if 0 < length failedDeps then
           \<lparr>healthy = False,
            chk_message =
              ''Dependency failures: ''
              @ join '', '' (map (\<lambda>kd. fst kd @ '': '' @ dep_message (snd kd)) failedDeps),
            chk_details = shown\<rparr>
         else \<lparr>healthy = True, chk_message = ''All dependencies available'', chk_details = shown\<rparr>)"

text \<open>The five checks, in the order in which the object receives its keys.\<close>

definition checks_of :: "health_env \<Rightarrow> (string \<times> check) list" where
  "checks_of env =
     [(''process'', validateProcessHealth env),
      (''memory'', validateMemoryUsage env),
      (''configuration'', validateConfiguration env),
      (''environment'', validateEnvironment env),
      (''dependencies'', validateDependencies env)]"

text \<open>\<open>Inl\<close> is the error that the function throws.\<close>

definition performHealthChecks :: "health_env \<Rightarrow> js_exn + (string \<times> check) list" where
  "performHealthChecks env =
     (let checks = checks_of env;
          failedChecks = filter (\<lambda>kc. \<not> healthy (snd kc)) checks
      in if 0 < length failedChecks then
           (let failureMessages = map (\<lambda>kc. fst kc @ '': '' @ chk_message (snd kc)) failedChecks
            in Inl (Exn ''Error'' (''Health check failures: '' @ join '', '' failureMessages)))
         else Inr checks)"

subsection \<open>The route GET /health\<close>

text \<open>
  The identifier that the routes of this router put in their bodies and log lines:
  \<open>req.headers['x-correlation-id'] || req.headers['x-request-id'] || `health-...`\<close>.
\<close>

definition route_correlationId :: "string \<Rightarrow> clock \<Rightarrow> request \<Rightarrow> string" where
  "route_correlationId route clk req =
     or_else (str_or (req_header req ''x-correlation-id'') (req_header req ''x-request-id''))
       (route @ ''-'' @ show_nat (now_ms clk) @ ''-'' @ random_suffix clk)"

definition healthResponse :: "health_env \<Rightarrow> string \<Rightarrow> (string \<times> json) list" where
  "healthResponse env correlationId =
     (let proc = h_process env in
      [(''status'', JString ''ok''),
       (''timestamp'', JString (now_iso (h_clock env))),
       (''service'', JString ''hao-backprop-test''),
       (''version'', JString (or_else (p_env proc ''npm_package_version'') ''1.0.0'')),
       (''uptime'', p_uptime proc),
       (''environment'', cfg env NODE_ENV),
       (''server'',
          JObject [(''host'', cfg env HOST), (''port'', cfg env PORT),
                   (''nodeVersion'', JString (version_string (p_version proc)))]),
       (''process'',
          JObject [(''pid'', JNumber (int (p_pid proc))),
                   (''memory'', memory_json (p_memoryUsage proc)),
                   (''cpuUsage'',
                      JObject [(''user'', JNumber (int (fst (p_cpuUsage proc)))),
                               (''system'', JNumber (int (snd (p_cpuUsage proc))))])]),
       (''correlationId'', JString correlationId)])"

definition health_errorResponse :: "health_env \<Rightarrow> js_exn \<Rightarrow> string \<Rightarrow> (string \<times> json) list" where
  "health_errorResponse env error correlationId =
     [(''status'', JString ''error''),
      (''timestamp'', JString (now_iso (h_clock env))),
      (''service'', JString ''hao-backprop-test''),
      (''message'', JString ''Health check failed''),
      (''error'',
         JObject [(''name'', JString (exn_name error)), (''message'', JString (exn_message error)),
                  (''type'', JString (exn_constructor_name error))]),
      (''correlationId'', JString correlationId),
      (''environment'', cfg env NODE_ENV)]"

definition health_line :: "health_env \<Rightarrow> request \<Rightarrow> string \<Rightarrow> string \<Rightarrow> string \<Rightarrow> int \<Rightarrow> string \<Rightarrow> (string \<times> json) list \<Rightarrow> log_line" where
  "health_line env req level msg correlationId code healthStatus extra =
     \<lparr>ll_level = level, ll_message = msg,
      ll_meta =
        [(''correlationId'', JString correlationId),
         (''method'', JString ''GET''), (''url'', JString ''/health''),
         (''status'', JNumber code),
         (''responseTime'', JString ''0ms''),
         (''remoteAddr'',
            JString (or_else (str_or (req_ip req) (req_remoteAddress req)) ''127.0.0.1'')),
         (''userAgent'', JString (or_else (req_header req ''user-agent'') ''unknown'')),
         (''healthStatus'', JString healthStatus)]
        @ extra @ [(''environment'', cfg env NODE_ENV)]\<rparr>"

text \<open>
  The \<open>catch\<close> block of the route. The router binds \<open>logger\<close> to the Winston instance
  that \<open>config/logger\<close> exports under the key \<open>logger\<close>, or to its own console
  logger, so the calls of its methods return. The clock is read once, so the response
  time in a log line is \<open>0ms\<close>; the stack that the error line would hold is left out.
\<close>

definition health_catch :: "health_env \<Rightarrow> request \<Rightarrow> string \<Rightarrow> js_exn \<Rightarrow> handler_state \<Rightarrow> outcome \<times> handler_state" where
  "health_catch env req correlationId error st =
     (let log1 = st_log st
                 @ [health_line env req ''error'' ''Health check failed'' correlationId 503 ''error''
                      [(''error'',
                          JObject [(''name'', JString (exn_name error)),
                                   (''message'', JString (exn_message error))])]];
          res1 = res_status 503 (st_res st)
      in case res_json (JObject (health_errorResponse env error correlationId)) res1 of
           Inl e \<Rightarrow> (Threw e, \<lparr>st_res = res1, st_log = log1\<rparr>)
         | Inr res2 \<Rightarrow> (Returned, \<lparr>st_res = res2, st_log = log1\<rparr>))"

definition get_health :: "health_env \<Rightarrow> request \<Rightarrow> handler_state \<Rightarrow> outcome \<times> handler_state" where
  "get_health env req st =
     (let correlationId = route_correlationId ''health'' (h_clock env) req in
      case performHealthChecks env of
        Inl error \<Rightarrow> health_catch env req correlationId error st
      | Inr healthStatus \<Rightarrow>
         (let log1 = st_log st
                     @ [health_line env req ''http'' ''Health check successful'' correlationId 200
                          ''ok'' [(''uptime'', p_uptime (h_process env))]];
              res1 = res_status 200 (st_res st)
          in case res_json (JObject (healthResponse env correlationId)) res1 of
               Inl error \<Rightarrow> health_catch env req correlationId error \<lparr>st_res = res1, st_log = log1\<rparr>
             | Inr res2 \<Rightarrow> (Returned, \<lparr>st_res = res2, st_log = log1\<rparr>)))"


section \<open>Correlation identifiers (middleware/logger)\<close>

definition generateCorrelationId :: "clock \<Rightarrow> string" where
  "generateCorrelationId clk = uuid4 clk"

definition initiated_line :: "clock \<Rightarrow> request \<Rightarrow> string \<Rightarrow> log_line" where
  "initiated_line clk req correlationId =
     \<lparr>ll_level = ''info'', ll_message = ''Request initiated'',
      ll_meta =
        [(''correlationId'', JString correlationId),
         (''method'', JString (req_method req)), (''url'', JString (req_url req)),
         (''userAgent'', jstr (req_header req ''user-agent'')),
         (''remoteAddr'', jstr (str_or (req_ip req) (req_remoteAddress req))),
         (''timestamp'', JString (now_iso clk))]\<rparr>"

definition middleware_error_line :: "clock \<Rightarrow> request \<Rightarrow> js_exn \<Rightarrow> log_line" where
  "middleware_error_line clk req error =
     \<lparr>ll_level = ''error'', ll_message = ''Correlation ID middleware error'',
      ll_meta =
        [(''error'', JString (exn_message error)),
         (''method'', JString (req_method req)), (''url'', JString (req_url req)),
         (''timestamp'', JString (now_iso clk))]\<rparr>"

text \<open>
  The \<open>catch\<close> block logs and calls \<open>next()\<close>. \<open>Returned\<close> says that the middleware
  called \<open>next()\<close> and returned; the request is returned as the middleware left it.
\<close>

definition middleware_catch :: "logger \<Rightarrow> clock \<Rightarrow> js_exn \<Rightarrow> request \<Rightarrow> handler_state \<Rightarrow> outcome \<times> request \<times> handler_state" where
  "middleware_catch logger clk error req st =
     (case log_call (lg_error logger) (middleware_error_line clk req error) (st_log st) of
        Inl e \<Rightarrow> (Threw e, req, st)
      | Inr log1 \<Rightarrow> (Returned, req, st\<lparr>st_log := log1\<rparr>))"

definition correlationIdMiddleware :: "logger \<Rightarrow> clock \<Rightarrow> request \<Rightarrow> handler_state \<Rightarrow> outcome \<times> request \<times> handler_state" where
  "correlationIdMiddleware logger clk req st =
     (let correlationId = generateCorrelationId clk;
          req1 = req\<lparr>req_correlationId := Some correlationId\<rparr>
      in case res_set [(''X-Correlation-ID'', correlationId)] (st_res st) of
           Inl error \<Rightarrow> middleware_catch logger clk error req1 st
         | Inr res1 \<Rightarrow>
            (case log_call (lg_info logger) (initiated_line clk req1 correlationId) (st_log st) of
               Inl error \<Rightarrow> middleware_catch logger clk error req1 (st\<lparr>st_res := res1\<rparr>)
             | Inr log1 \<Rightarrow> (Returned, req1, \<lparr>st_res = res1, st_log = log1\<rparr>)))"



text \<open>Inputs used as examples below.\<close>

definition fresh_response :: response where
  "fresh_response = \<lparr>res_statusCode = 200, res_headers = [], headersSent = False, sent = []\<rparr>"

definition fresh_state :: handler_state where
  "fresh_state = \<lparr>st_res = fresh_response, st_log = []\<rparr>"

definition a_clock :: clock where
  "a_clock = \<lparr>now_ms = 1700000000000, now_iso = ''2023-11-14T22:13:20.000Z'',
     random36 = ''0.4fzyo82mvyr'', uuid4 = ''123e4567-e89b-42d3-a456-426614174000''\<rparr>"

definition a_request :: "string \<Rightarrow> string \<Rightarrow> request" where
  "a_request m u =
     \<lparr>req_method = m, req_url = u, req_originalUrl = Some u,
      req_headers = [(''user-agent'', ''curl/8.0''), (''accept'', ''*/*'')],
      req_correlationId = None, req_id = None, req_ip = Some ''127.0.0.1'',
      req_remoteAddress = Some ''127.0.0.1'', req_query = JObject [], req_params = JObject [],
      req_body = None, req_startTime = None\<rparr>"

definition a_process :: "nat \<Rightarrow> string \<Rightarrow> process_state" where
  "a_process rss_bytes node_env =
     \<lparr>p_uptime = JNumber 42,
      p_memoryUsage = \<lparr>mu_rss = rss_bytes, mu_heapTotal = 20000000, mu_heapUsed = 15000000,
                         mu_external = 1000000, mu_arrayBuffers = 10000\<rparr>,
      p_cpuUsage = (1000, 500), p_pid = 4711, p_version = (18, 17, 0),
      p_platform = ''linux'', p_arch = ''x64'',
      p_env = (\<lambda>k. if k = ''NODE_ENV'' then Some node_env else None),
      p_express_error = None, p_winston_loads = True\<rparr>"

definition production_module :: config_module where
  "production_module = \<lparr>app_env = ''production'', server_host = ''127.0.0.1'', server_port = 3000\<rparr>"

definition an_env :: "config_binding \<Rightarrow> nat \<Rightarrow> string \<Rightarrow> health_env" where
  "an_env binding rss_bytes node_env =
     \<lparr>h_config = binding, h_process = a_process rss_bytes node_env, h_clock = a_clock\<rparr>"



definition no_error :: js_error where
  "no_error = \<lparr>e_status = None, e_statusCode = None, e_name = None,
     e_constructor_name = None, e_code = None, e_message = None, e_stack = None\<rparr>"

definition named_error :: "string \<Rightarrow> string \<Rightarrow> js_error" where
  "named_error n m = no_error\<lparr>e_name := Some n, e_constructor_name := Some ''Error'',
     e_message := Some m, e_stack := Some (n @ '': '' @ m @ ''\<newline>    at handler (app.js:1:1)'')\<rparr>"

definition coded_error :: "string \<Rightarrow> js_error" where
  "coded_error c = (named_error ''Error'' ''listen failed'')\<lparr>e_code := Some c\<rparr>"

definition status_error :: "int \<Rightarrow> string \<Rightarrow> js_error" where
  "status_error s m = (named_error ''Error'' m)\<lparr>e_status := Some s\<rparr>"


section \<open>Properties of the classifier\<close>

lemma num_or_truthy:
  "truthy_num a \<or> truthy_num b \<Longrightarrow> \<exists>s. num_or a b = Some s \<and> s \<noteq> 0"
  by (auto simp: num_or_def truthy_num_def split: option.splits)

text \<open>
  C4, as stated, fails: a failure that carries the \<open>statusCode\<close> field 404, in 400..599,
  and the \<open>status\<close> field 200 is classified as 200, a server error, not as 404. The
  \<open>status\<close> field is read first and \<open>statusCode\<close> only when \<open>status\<close> is absent or zero.
\<close>

theorem classifyError_status_before_statusCode_counterexample:
  "e_statusCode ((named_error ''Error'' ''moved'')\<lparr>e_status := Some 200, e_statusCode := Some 404\<rparr>)
     = Some 404
   \<and> (400::int) \<le> 404 \<and> (404::int) \<le> 599
   \<and> classifyError ((named_error ''Error'' ''moved'')\<lparr>e_status := Some 200, e_statusCode := Some 404\<rparr>)
     = Entry \<lparr>status = 200, category = server\<rparr>
   \<and> classifyError ((named_error ''Error'' ''moved'')\<lparr>e_status := Some 200, e_statusCode := Some 404\<rparr>)
     \<noteq> Entry \<lparr>status = 404, category = client\<rparr>"
  by (simp add: classifyError_def named_error_def no_error_def truthy_num_def num_or_def mk_def)

text \<open>
  C4, amended. A failure whose explicit status (the \<open>status\<close> field, or the \<open>statusCode\<close>
  field when \<open>status\<close> is absent or zero) lies in 400..599 is classified with exactly that
  status, as a client error below 500 and as a server error from 500 on, whatever its
  name, constructor, fault code and message are.
\<close>

theorem classifyError_explicit_status:
  assumes "e_status error = Some s
           \<or> (\<not> truthy_num (e_status error) \<and> e_statusCode error = Some s)"
    and "400 \<le> s" and "s \<le> 599"
  shows "classifyError error
           = Entry \<lparr>status = s, category = (if s < 500 then client else server)\<rparr>"
proof -
  from assms have s0: "s \<noteq> 0" by simp
  from assms(1) s0 have or: "num_or (e_status error) (e_statusCode error) = Some s"
    by (auto simp: num_or_def truthy_num_def)
  from assms(1) s0 have "truthy_num (e_status error) \<or> truthy_num (e_statusCode error)"
    by (auto simp: truthy_num_def)
  with or assms(2) show ?thesis
    by (simp add: classifyError_def mk_def)
qed

theorem classifyError_explicit_status_witness:
  "e_status (status_error 404 ''User not found'') = Some 404
   \<and> (400::int) \<le> 404 \<and> (404::int) \<le> 599
   \<and> classifyError (status_error 404 ''User not found'')
       = Entry \<lparr>status = 404, category = client\<rparr>
   \<and> \<not> truthy_num (e_status ((named_error ''ValidationError'' ''bad'')\<lparr>e_statusCode := Some 500\<rparr>))
   \<and> classifyError ((named_error ''ValidationError'' ''bad'')\<lparr>e_statusCode := Some 500\<rparr>)
       = Entry \<lparr>status = 500, category = server\<rparr>"
  using classifyError_explicit_status [of "status_error 404 ''User not found''" 404]
        classifyError_explicit_status
          [of "(named_error ''ValidationError'' ''bad'')\<lparr>e_statusCode := Some 500\<rparr>" 500]
  by (simp add: status_error_def named_error_def no_error_def truthy_num_def)

lemma table_keys_nonempty: "object_get ERROR_CLASSIFICATIONS n = Some c \<Longrightarrow> n \<noteq> []"
  by (auto simp: object_get_def ERROR_CLASSIFICATIONS_def split: if_splits)

lemma lookup_name_key:
  "object_get ERROR_CLASSIFICATIONS n = Some c \<Longrightarrow> lookup_name (Some n) = Some (Entry c)"
  using table_keys_nonempty [of n c] by (simp add: lookup_name_def)

lemma lookup_name_Error: "lookup_name (Some ''Error'') = None"
  by (simp add: lookup_name_def object_get_def ERROR_CLASSIFICATIONS_def inherited_names_def)

lemma lookup_name_toString: "lookup_name (Some ''toString'') = Some (Member ''toString'')"
  by (simp add: lookup_name_def object_get_def ERROR_CLASSIFICATIONS_def inherited_names_def)

text \<open>
  C5, as stated, fails: the name is read before the constructor name, and the lookup
  under the name also finds what every object inherits. For a failure named \<open>toString\<close>
  whose constructor is named \<open>SyntaxError\<close>, which the table maps to 400, the classifier
  returns the inherited member and no status of the table (the last three conjuncts).
  Where the name and the constructor name are both keys of the table, the entry of the
  name is the one returned: a failure named \<open>ValidationError\<close> whose constructor is named
  \<open>NotFoundError\<close>, which the table maps to 404, is classified as 400.
\<close>

theorem classifyError_name_before_constructor_counterexample:
  "\<not> truthy_num (e_status ((named_error ''ValidationError'' ''no such user'')\<lparr>e_constructor_name := Some ''NotFoundError''\<rparr>))
   \<and> \<not> truthy_num (e_statusCode ((named_error ''ValidationError'' ''no such user'')\<lparr>e_constructor_name := Some ''NotFoundError''\<rparr>))
   \<and> e_constructor_name ((named_error ''ValidationError'' ''no such user'')\<lparr>e_constructor_name := Some ''NotFoundError''\<rparr>)
       = Some ''NotFoundError''
   \<and> object_get ERROR_CLASSIFICATIONS ''NotFoundError'' = Some \<lparr>status = 404, category = client\<rparr>
   \<and> classifyError ((named_error ''ValidationError'' ''no such user'')\<lparr>e_constructor_name := Some ''NotFoundError''\<rparr>)
       = Entry \<lparr>status = 400, category = client\<rparr>
   \<and> e_constructor_name ((named_error ''toString'' ''bad json'')\<lparr>e_constructor_name := Some ''SyntaxError''\<rparr>)
       = Some ''SyntaxError''
   \<and> object_get ERROR_CLASSIFICATIONS ''SyntaxError'' = Some \<lparr>status = 400, category = client\<rparr>
   \<and> classifyError ((named_error ''toString'' ''bad json'')\<lparr>e_constructor_name := Some ''SyntaxError''\<rparr>)
       = Member ''toString''"
proof -
  have v: "lookup_name (Some ''ValidationError'') = Some (Entry \<lparr>status = 400, category = client\<rparr>)"
    by (simp add: lookup_name_def object_get_def ERROR_CLASSIFICATIONS_def mk_def)
  have k: "object_get ERROR_CLASSIFICATIONS ''NotFoundError'' = Some \<lparr>status = 404, category = client\<rparr>"
          "object_get ERROR_CLASSIFICATIONS ''SyntaxError'' = Some \<lparr>status = 400, category = client\<rparr>"
    by (simp_all add: object_get_def ERROR_CLASSIFICATIONS_def mk_def)
  show ?thesis
    by (simp add: classifyError_def named_error_def no_error_def truthy_num_def v k
          lookup_name_toString)
qed

text \<open>
  C5, amended. A failure without an explicit status whose name is a key of the
  classification table is classified with the table's entry for that name. A failure
  without an explicit status under whose name the lookup finds nothing (the name is
  absent or empty, or it is neither a key of the table nor the name of a member that
  every object inherits) and whose constructor name is a key of the table is classified
  with the table's entry for the constructor name. The fault code and the message play
  no part. The second conjunct reads the thirteen statuses of the specification off the
  table: validation 400, unauthorized 401, forbidden 403, not-found 404,
  method-not-allowed 405, conflict 409, payload-too-large 413, unsupported-media 415,
  too-many-requests 429, unimplemented 501, bad-gateway 502, unavailable 503,
  timeout 504.
\<close>

theorem classifyError_table_name:
  assumes "\<not> truthy_num (e_status error)" and "\<not> truthy_num (e_statusCode error)"
    and "e_name error = Some n
         \<or> (lookup_name (e_name error) = None \<and> e_constructor_name error = Some n)"
    and "object_get ERROR_CLASSIFICATIONS n = Some c"
  shows "classifyError error = Entry c
    \<and> map (\<lambda>k. map_option status (object_get ERROR_CLASSIFICATIONS k))
         [''ValidationError'', ''UnauthorizedError'', ''ForbiddenError'', ''NotFoundError'',
          ''MethodNotAllowedError'', ''ConflictError'', ''PayloadTooLargeError'',
          ''UnsupportedMediaTypeError'', ''TooManyRequestsError'', ''NotImplementedError'',
          ''BadGatewayError'', ''ServiceUnavailableError'', ''GatewayTimeoutError'']
       = [Some 400, Some 401, Some 403, Some 404, Some 405, Some 409, Some 413, Some 415,
          Some 429, Some 501, Some 502, Some 503, Some 504]"
proof
  from assms(3) show "classifyError error = Entry c"
  proof
    assume "e_name error = Some n"
    with assms(1,2) lookup_name_key [OF assms(4)] show ?thesis
      by (simp add: classifyError_def)
  next
    assume "lookup_name (e_name error) = None \<and> e_constructor_name error = Some n"
    with assms(1,2) lookup_name_key [OF assms(4)] show ?thesis
      by (simp add: classifyError_def)
  qed
next
  show "map (\<lambda>k. map_option status (object_get ERROR_CLASSIFICATIONS k))
         [''ValidationError'', ''UnauthorizedError'', ''ForbiddenError'', ''NotFoundError'',
          ''MethodNotAllowedError'', ''ConflictError'', ''PayloadTooLargeError'',
          ''UnsupportedMediaTypeError'', ''TooManyRequestsError'', ''NotImplementedError'',
          ''BadGatewayError'', ''ServiceUnavailableError'', ''GatewayTimeoutError'']
       = [Some 400, Some 401, Some 403, Some 404, Some 405, Some 409, Some 413, Some 415,
          Some 429, Some 501, Some 502, Some 503, Some 504]"
    by (simp add: object_get_def ERROR_CLASSIFICATIONS_def mk_def)
qed

theorem classifyError_table_name_witness:
  "classifyError (named_error ''ConflictError'' ''invalid token: not found'')
     = Entry \<lparr>status = 409, category = client\<rparr>
   \<and> lookup_name (e_name ((named_error ''Error'' ''permission'')\<lparr>e_constructor_name := Some ''GatewayTimeoutError''\<rparr>))
       = None
   \<and> classifyError ((named_error ''Error'' ''permission'')\<lparr>e_constructor_name := Some ''GatewayTimeoutError''\<rparr>)
       = Entry \<lparr>status = 504, category = server\<rparr>"
proof -
  have k1: "object_get ERROR_CLASSIFICATIONS ''ConflictError'' = Some \<lparr>status = 409, category = client\<rparr>"
    by (simp add: object_get_def ERROR_CLASSIFICATIONS_def mk_def)
  have k2: "object_get ERROR_CLASSIFICATIONS ''GatewayTimeoutError'' = Some \<lparr>status = 504, category = server\<rparr>"
    by (simp add: object_get_def ERROR_CLASSIFICATIONS_def mk_def)
  show ?thesis
    using classifyError_table_name [of "named_error ''ConflictError'' ''invalid token: not found''"
            "''ConflictError''" "\<lparr>status = 409, category = client\<rparr>"]
          classifyError_table_name [of "(named_error ''Error'' ''permission'')\<lparr>e_constructor_name := Some ''GatewayTimeoutError''\<rparr>"
            "''GatewayTimeoutError''" "\<lparr>status = 504, category = server\<rparr>"]
          k1 k2 lookup_name_Error
    by (simp add: named_error_def no_error_def truthy_num_def)
qed

text \<open>
  C10. The table writes the key \<open>CastError\<close> twice, with 400 and then with 404. A
  failure without an explicit status whose name is \<open>CastError\<close> is classified as
  404, a client error: the later entry is the one in effect.
\<close>

theorem classifyError_CastError:
  assumes "\<not> truthy_num (e_status error)" and "\<not> truthy_num (e_statusCode error)"
    and "e_name error = Some ''CastError''"
  shows "classifyError error = Entry \<lparr>status = 404, category = client\<rparr>
    \<and> (''CastError'', \<lparr>status = 400, category = client\<rparr>) \<in> set ERROR_CLASSIFICATIONS
    \<and> (''CastError'', \<lparr>status = 404, category = client\<rparr>) \<in> set ERROR_CLASSIFICATIONS"
proof -
  have "lookup_name (Some ''CastError'') = Some (Entry \<lparr>status = 404, category = client\<rparr>)"
    by (simp add: lookup_name_def object_get_def ERROR_CLASSIFICATIONS_def mk_def)
  with assms show ?thesis
    by (simp add: classifyError_def ERROR_CLASSIFICATIONS_def mk_def)
qed

theorem classifyError_CastError_witness:
  "\<not> truthy_num (e_status (named_error ''CastError'' ''Cast to ObjectId failed''))
   \<and> e_name (named_error ''CastError'' ''Cast to ObjectId failed'') = Some ''CastError''
   \<and> classifyError (named_error ''CastError'' ''Cast to ObjectId failed'')
       = Entry \<lparr>status = 404, category = client\<rparr>"
  using classifyError_CastError [of "named_error ''CastError'' ''Cast to ObjectId failed''"]
  by (simp add: named_error_def no_error_def truthy_num_def)

text \<open>
  C6, as stated, fails: the fault code \<open>EADDRINUSE\<close> is not one of connection-refused,
  timeout, address-not-found or permission-denied, and a failure that carries it (no
  explicit status, nothing found under its name or its constructor name) is classified
  as 503, not as 500.
\<close>

theorem classifyError_address_in_use_counterexample:
  "\<not> truthy_num (e_status (coded_error ''EADDRINUSE''))
   \<and> \<not> truthy_num (e_statusCode (coded_error ''EADDRINUSE''))
   \<and> lookup_name (e_name (coded_error ''EADDRINUSE'')) = None
   \<and> lookup_name (e_constructor_name (coded_error ''EADDRINUSE'')) = None
   \<and> e_code (coded_error ''EADDRINUSE'') = Some ''EADDRINUSE''
   \<and> ''EADDRINUSE'' \<notin> {''ECONNREFUSED'', ''ETIMEDOUT'', ''ENOTFOUND'', ''EACCES''}
   \<and> classifyError (coded_error ''EADDRINUSE'') = Entry \<lparr>status = 503, category = server\<rparr>
   \<and> classifyError (coded_error ''EADDRINUSE'') \<noteq> Entry \<lparr>status = 500, category = server\<rparr>"
  by (simp add: coded_error_def named_error_def no_error_def truthy_num_def truthy_str_def
        lookup_name_Error classifyError_def classify_code_def mk_def)

text \<open>
  C6, amended. A failure without an explicit status, under whose name and constructor
  name the table lookup finds nothing (neither a key of the table nor a member that
  every object inherits), and that carries a fault code is classified as 503 (server)
  for address-in-use, connection-refused, address-not-found and timeout, as 403
  (client) for permission-denied, and as 500 (server) for every other fault code.
\<close>

theorem classifyError_fault_code:
  assumes "\<not> truthy_num (e_status error)" and "\<not> truthy_num (e_statusCode error)"
    and "lookup_name (e_name error) = None"
    and "lookup_name (e_constructor_name error) = None"
    and "e_code error = Some c" and "c \<noteq> []"
  shows "classifyError error =
     (if c \<in> {''EADDRINUSE'', ''ECONNREFUSED'', ''ENOTFOUND'', ''ETIMEDOUT''}
        then Entry \<lparr>status = 503, category = server\<rparr>
      else if c = ''EACCES'' then Entry \<lparr>status = 403, category = client\<rparr>
      else Entry \<lparr>status = 500, category = server\<rparr>)"
  using assms
  by (simp add: classifyError_def truthy_str_def classify_code_def mk_def)

theorem classifyError_fault_code_witness:
  "lookup_name (e_name (coded_error ''ECONNREFUSED'')) = None
   \<and> classifyError (coded_error ''ECONNREFUSED'') = Entry \<lparr>status = 503, category = server\<rparr>
   \<and> classifyError (coded_error ''EACCES'') = Entry \<lparr>status = 403, category = client\<rparr>
   \<and> classifyError (coded_error ''EPIPE'') = Entry \<lparr>status = 500, category = server\<rparr>"
  using classifyError_fault_code [of "coded_error ''ECONNREFUSED''" "''ECONNREFUSED''"]
        classifyError_fault_code [of "coded_error ''EACCES''" "''EACCES''"]
        classifyError_fault_code [of "coded_error ''EPIPE''" "''EPIPE''"] lookup_name_Error
  by (simp add: coded_error_def named_error_def no_error_def truthy_num_def)


section \<open>Properties of the client-facing message\<close>


lemma safe_table:
  "object_get SAFE_ERROR_MESSAGES s =
     (if s = 400 then Some ''Bad Request - Invalid request format or parameters''
      else if s = 401 then Some ''Unauthorized - Authentication required''
      else if s = 403 then Some ''Forbidden - Access denied''
      else if s = 404 then Some ''Not Found - The requested resource was not found''
      else if s = 405 then Some ''Method Not Allowed - HTTP method not supported for this endpoint''
      else if s = 406 then Some ''Not Acceptable - Requested format not available''
      else if s = 409 then Some ''Conflict - Resource conflict detected''
      else if s = 413 then Some ''Payload Too Large - Request payload exceeds size limit''
      else if s = 415 then Some ''Unsupported Media Type - Content type not supported''
      else if s = 429 then Some ''Too Many Requests - Rate limit exceeded''
      else if s = 500 then Some ''Internal Server Error - An unexpected error occurred''
      else if s = 501 then Some ''Not Implemented - Feature not implemented''
      else if s = 502 then Some ''Bad Gateway - External service error''
      else if s = 503 then Some ''Service Unavailable - Service temporarily unavailable''
      else if s = 504 then Some ''Gateway Timeout - External service timeout''
      else None)"
  by (simp add: object_get_def SAFE_ERROR_MESSAGES_def)





section \<open>Properties of the error response and of the handler\<close>

lemma generateSafeErrorMessage_5xx:
  "500 \<le> s \<Longrightarrow> generateSafeErrorMessage s error =
     (case object_get SAFE_ERROR_MESSAGES s of
        Some safe \<Rightarrow> safe
      | None \<Rightarrow> ''Internal Server Error - An unexpected error occurred'')"
  by (simp add: generateSafeErrorMessage_def split: option.splits)

lemma createErrorResponse_keys:
  "fst ` set (createErrorResponse clk s m cid eid) \<subseteq>
     {''error'', ''status'', ''message'', ''timestamp'', ''correlationId'', ''errorId'',
      ''retryAfter'', ''maxSize''}"
  by (auto simp: createErrorResponse_def)

lemma createErrorResponse_no_stack:
  "''stack'' \<notin> fst ` set (createErrorResponse clk s m cid eid)"
proof
  assume "''stack'' \<in> fst ` set (createErrorResponse clk s m cid eid)"
  then have "''stack'' \<in> {''error'', ''status'', ''message'', ''timestamp'',
      ''correlationId'', ''errorId'', ''retryAfter'', ''maxSize''}"
    by (rule subsetD [OF createErrorResponse_keys, rotated])
  then show False by simp
qed

lemma createErrorResponse_errorId:
  "(''errorId'' \<in> fst ` set (createErrorResponse clk s m cid eid)) = (500 \<le> s)"
  by (auto simp: createErrorResponse_def)

lemma createErrorResponse_message:
  "map_of (createErrorResponse clk s m cid eid) ''message'' = Some (JString m)"
  by (simp add: createErrorResponse_def)

text \<open>
  What the \<open>try\<close> block does to the response: it leaves the bodies as they were, or it
  writes the body of the classified error, with the status of the classification, to a
  response whose head had not gone out.
\<close>

lemma handler_try_sent:
  "handler_try logger clk err req st = (r, st1) \<Longrightarrow>
   (sent (st_res st1) = sent (st_res st) \<and> headersSent (st_res st1) = headersSent (st_res st))
   \<or> (\<not> headersSent (st_res st) \<and> headersSent (st_res st1)
       \<and> (case classifyError err of
             Member n \<Rightarrow> False
           | Entry c \<Rightarrow>
               sent (st_res st1) = sent (st_res st)
                 @ [JObject (createErrorResponse clk (status c)
                      (generateSafeErrorMessage (status c) err)
                      (Some (ctx_correlationId (extractRequestContext clk req)))
                      (''err_'' @ show_nat (now_ms clk) @ ''_'' @ random_suffix clk))]))"
  by (auto simp: handler_try_def createErrorLogEntry_def Let_def res_set_def res_json_def
        res_status_def log_call_def
        split: sum.splits if_splits classified.splits option.splits)

lemma handler_try_writes:
  assumes "classifyError err = Entry c" and "100 \<le> status c" and "status c \<le> 999"
    and "\<not> headersSent (st_res st)"
    and "lg_error logger (category_upper (category c) @ '' ERROR: '' @ tmpl (e_message err)) = None"
  shows "\<exists>r st1. handler_try logger clk err req st = (r, st1)
           \<and> headersSent (st_res st1) \<and> res_statusCode (st_res st1) = status c
           \<and> sent (st_res st1) = sent (st_res st)
                 @ [JObject (createErrorResponse clk (status c)
                      (generateSafeErrorMessage (status c) err)
                      (Some (ctx_correlationId (extractRequestContext clk req)))
                      (''err_'' @ show_nat (now_ms clk) @ ''_'' @ random_suffix clk))]"
  using assms
  by (auto simp: handler_try_def createErrorLogEntry_def Let_def res_set_def res_json_def
        res_status_def log_call_def error_line_def
        split: sum.splits option.splits)

lemma catch_keeps_sent_response:
  assumes "handler_try logger clk err req st = (r, st1)" and "headersSent (st_res st1)"
  shows "st_res (snd (centralizedErrorHandler logger clk err req st)) = st_res st1"
  using assms
  by (cases r) (auto simp: centralizedErrorHandler_def Let_def split: sum.splits)

lemma handler_sent_cases:
  "sent (st_res (snd (centralizedErrorHandler logger clk err req st))) = sent (st_res st)
   \<or> sent (st_res (snd (centralizedErrorHandler logger clk err req st)))
       = sent (st_res st) @ [minimal_body clk]
   \<or> (case classifyError err of
         Member n \<Rightarrow> False
       | Entry c \<Rightarrow>
           sent (st_res (snd (centralizedErrorHandler logger clk err req st)))
             = sent (st_res st)
               @ [JObject (createErrorResponse clk (status c)
                    (generateSafeErrorMessage (status c) err)
                    (Some (ctx_correlationId (extractRequestContext clk req)))
                    (''err_'' @ show_nat (now_ms clk) @ ''_'' @ random_suffix clk))])"
proof -
  obtain r st1 where t: "handler_try logger clk err req st = (r, st1)"
    by (cases "handler_try logger clk err req st")
  show ?thesis
  proof (cases "headersSent (st_res st1)")
    case True
    from catch_keeps_sent_response [OF t True] handler_try_sent [OF t] show ?thesis
      by (auto split: classified.splits)
  next
    case False
    with handler_try_sent [OF t]
    have same: "sent (st_res st1) = sent (st_res st)" by auto
    from False same show ?thesis
      by (cases r)
         (auto simp: centralizedErrorHandler_def t Let_def res_json_def res_status_def
            split: sum.splits)
  qed
qed


text \<open>
  C7. The body that \<open>createErrorResponse\<close> builds has the field \<open>errorId\<close> exactly when
  the status is 500 or more; its fields are among \<open>error\<close>, \<open>status\<close>, \<open>message\<close>,
  \<open>timestamp\<close>, \<open>correlationId\<close>, \<open>errorId\<close>, \<open>retryAfter\<close> and \<open>maxSize\<close>, so there is no
  \<open>stack\<close>; its message is the one it is given. For a status of 500 or more
  \<open>generateSafeErrorMessage\<close> gives the safe-table entry of the status, or the text of
  the 500 entry when the status has none: the right-hand side does not read the failure.
  The handler, for a failure classified to an object with a status that Node can send,
  on a response whose head has not gone out and with a \<open>logger.error\<close> that returns,
  sets that status and writes exactly this body, built from the status of the
  classification and the safe message. Whatever the failure and the logger are, the
  handler writes nothing, or this body, or the minimal body of its fallback, which has
  the safe 500 message and neither \<open>errorId\<close> nor \<open>stack\<close>.
\<close>

theorem centralizedErrorHandler_error_body:
  "((''errorId'' \<in> fst ` set (createErrorResponse clk s m cid eid)) = (500 \<le> s))
   \<and> ''stack'' \<notin> fst ` set (createErrorResponse clk s m cid eid)
   \<and> fst ` set (createErrorResponse clk s m cid eid) \<subseteq>
       {''error'', ''status'', ''message'', ''timestamp'', ''correlationId'', ''errorId'',
        ''retryAfter'', ''maxSize''}
   \<and> map_of (createErrorResponse clk s m cid eid) ''message'' = Some (JString m)
   \<and> (500 \<le> s \<longrightarrow>
        generateSafeErrorMessage s err =
          (case object_get SAFE_ERROR_MESSAGES s of
             Some safe \<Rightarrow> safe
           | None \<Rightarrow> ''Internal Server Error - An unexpected error occurred''))
   \<and> (classifyError err = Entry c \<and> 100 \<le> status c \<and> status c \<le> 999
        \<and> \<not> headersSent (st_res st)
        \<and> lg_error logger (category_upper (category c) @ '' ERROR: '' @ tmpl (e_message err)) = None
       \<longrightarrow>
        res_statusCode (st_res (snd (centralizedErrorHandler logger clk err req st))) = status c
        \<and> sent (st_res (snd (centralizedErrorHandler logger clk err req st)))
            = sent (st_res st)
              @ [JObject (createErrorResponse clk (status c)
                   (generateSafeErrorMessage (status c) err)
                   (Some (ctx_correlationId (extractRequestContext clk req)))
                   (''err_'' @ show_nat (now_ms clk) @ ''_'' @ random_suffix clk))])
   \<and> (sent (st_res (snd (centralizedErrorHandler logger clk err req st))) = sent (st_res st)
       \<or> sent (st_res (snd (centralizedErrorHandler logger clk err req st)))
           = sent (st_res st)
             @ [JObject [(''error'', JBool True), (''status'', JNumber 500),
                  (''message'', JString ''Internal Server Error - An unexpected error occurred''),
                  (''timestamp'', JString (now_iso clk))]]
       \<or> (case classifyError err of
             Member n \<Rightarrow> False
           | Entry c' \<Rightarrow>
               sent (st_res (snd (centralizedErrorHandler logger clk err req st)))
                 = sent (st_res st)
                   @ [JObject (createErrorResponse clk (status c')
                        (generateSafeErrorMessage (status c') err)
                        (Some (ctx_correlationId (extractRequestContext clk req)))
                        (''err_'' @ show_nat (now_ms clk) @ ''_'' @ random_suffix clk))]))"
proof (intro conjI impI)
  show "(''errorId'' \<in> fst ` set (createErrorResponse clk s m cid eid)) = (500 \<le> s)"
    by (rule createErrorResponse_errorId)
  show "''stack'' \<notin> fst ` set (createErrorResponse clk s m cid eid)"
    by (rule createErrorResponse_no_stack)
  show "fst ` set (createErrorResponse clk s m cid eid) \<subseteq>
       {''error'', ''status'', ''message'', ''timestamp'', ''correlationId'', ''errorId'',
        ''retryAfter'', ''maxSize''}"
    by (rule createErrorResponse_keys)
  show "map_of (createErrorResponse clk s m cid eid) ''message'' = Some (JString m)"
    by (rule createErrorResponse_message)
  show "generateSafeErrorMessage s err =
          (case object_get SAFE_ERROR_MESSAGES s of
             Some safe \<Rightarrow> safe
           | None \<Rightarrow> ''Internal Server Error - An unexpected error occurred'')"
    if "500 \<le> s"
    using that by (rule generateSafeErrorMessage_5xx)
next
  assume h: "classifyError err = Entry c \<and> 100 \<le> status c \<and> status c \<le> 999
        \<and> \<not> headersSent (st_res st)
        \<and> lg_error logger (category_upper (category c) @ '' ERROR: '' @ tmpl (e_message err)) = None"
  then obtain r st1 where t: "handler_try logger clk err req st = (r, st1)"
    and w: "headersSent (st_res st1)" "res_statusCode (st_res st1) = status c"
      "sent (st_res st1) = sent (st_res st)
         @ [JObject (createErrorResponse clk (status c)
              (generateSafeErrorMessage (status c) err)
              (Some (ctx_correlationId (extractRequestContext clk req)))
              (''err_'' @ show_nat (now_ms clk) @ ''_'' @ random_suffix clk))]"
    using handler_try_writes [of err c st logger clk req] by blast
  note k = catch_keeps_sent_response [OF t w(1)]
  show "res_statusCode (st_res (snd (centralizedErrorHandler logger clk err req st))) = status c"
    by (simp add: k w(2))
  show "sent (st_res (snd (centralizedErrorHandler logger clk err req st)))
            = sent (st_res st)
              @ [JObject (createErrorResponse clk (status c)
                   (generateSafeErrorMessage (status c) err)
                   (Some (ctx_correlationId (extractRequestContext clk req)))
                   (''err_'' @ show_nat (now_ms clk) @ ''_'' @ random_suffix clk))]"
    by (simp only: k w(3))
next
  show "sent (st_res (snd (centralizedErrorHandler logger clk err req st))) = sent (st_res st)
       \<or> sent (st_res (snd (centralizedErrorHandler logger clk err req st)))
           = sent (st_res st)
             @ [JObject [(''error'', JBool True), (''status'', JNumber 500),
                  (''message'', JString ''Internal Server Error - An unexpected error occurred''),
                  (''timestamp'', JString (now_iso clk))]]
       \<or> (case classifyError err of
             Member n \<Rightarrow> False
           | Entry c' \<Rightarrow>
               sent (st_res (snd (centralizedErrorHandler logger clk err req st)))
                 = sent (st_res st)
                   @ [JObject (createErrorResponse clk (status c')
                        (generateSafeErrorMessage (status c') err)
                        (Some (ctx_correlationId (extractRequestContext clk req)))
                        (''err_'' @ show_nat (now_ms clk) @ ''_'' @ random_suffix clk))])"
    using handler_sent_cases [of logger clk err req st] by (simp only: minimal_body_def)
qed

lemma show_nat_examples:
  "show_nat 1700000000000 = ''1700000000000''" "show_nat 100 = ''100''" "show_nat 150 = ''150''"
  "show_nat 200 = ''200''" "show_nat 120 = ''120''" "show_nat 50 = ''50''"
  "show_nat 14 = ''14''" "show_nat 19 = ''19''" "show_nat 18 = ''18''" "show_nat 17 = ''17''"
  "show_nat 0 = ''0''"
  by (simp_all add: show_nat.simps digit_char_def)

lemma error_id_example:
  "show_nat (now_ms a_clock) = ''1700000000000''" "random_suffix a_clock = ''4fzyo82mv''"
  by (simp_all add: a_clock_def random_suffix_def show_nat_examples)

lemma classify_database_failure:
  "classifyError (named_error ''Error'' ''connect to db at /var/lib/pg failed'')
     = Entry \<lparr>status = 500, category = server\<rparr>"
  by code_simp

lemma classify_forbidden_delete:
  "classifyError (status_error 403 ''Cannot delete admin user'')
     = Entry \<lparr>status = 403, category = client\<rparr>"
  by code_simp

lemma request_context_example:
  "ctx_correlationId (extractRequestContext a_clock (a_request m u)) = ''unknown''"
  by (simp add: extractRequestContext_def a_request_def req_header_def str_or_def
        truthy_str_def or_else_def)

theorem centralizedErrorHandler_error_body_witness:
  "sent (st_res (snd (centralizedErrorHandler winston_logger a_clock
      (named_error ''Error'' ''connect to db at /var/lib/pg failed'')
      (a_request ''GET'' ''/api/error'') fresh_state)))
     = [JObject [(''error'', JBool True), (''status'', JNumber 500),
          (''message'', JString ''Internal Server Error - An unexpected error occurred''),
          (''timestamp'', JString ''2023-11-14T22:13:20.000Z''),
          (''correlationId'', JString ''unknown''),
          (''errorId'', JString ''err_1700000000000_4fzyo82mv'')]]
   \<and> res_statusCode (st_res (snd (centralizedErrorHandler winston_logger a_clock
      (status_error 403 ''Cannot delete admin user'')
      (a_request ''DELETE'' ''/api/users/1'') fresh_state))) = 403
   \<and> sent (st_res (snd (centralizedErrorHandler winston_logger a_clock
      (status_error 403 ''Cannot delete admin user'')
      (a_request ''DELETE'' ''/api/users/1'') fresh_state)))
     = [JObject [(''error'', JBool True), (''status'', JNumber 403),
          (''message'', JString ''Forbidden - Access denied''),
          (''timestamp'', JString ''2023-11-14T22:13:20.000Z''),
          (''correlationId'', JString ''unknown'')]]"
proof -
  have fresh: "\<not> headersSent (st_res fresh_state)" "sent (st_res fresh_state) = []"
    by (simp_all add: fresh_state_def fresh_response_def)
  have lg: "\<And>m. lg_error winston_logger m = None"
    by (simp add: winston_logger_def)
  have iso: "now_iso a_clock = ''2023-11-14T22:13:20.000Z''"
    by (simp add: a_clock_def)
  have m500: "generateSafeErrorMessage 500 e = ''Internal Server Error - An unexpected error occurred''"
    for e by (simp add: generateSafeErrorMessage_def safe_table)
  have m403: "generateSafeErrorMessage 403 e = ''Forbidden - Access denied''"
    for e by (simp add: generateSafeErrorMessage_def safe_table)
  show ?thesis
    using centralizedErrorHandler_error_body
            [where err = "named_error ''Error'' ''connect to db at /var/lib/pg failed''"
               and c = "\<lparr>status = 500, category = server\<rparr>" and logger = winston_logger
               and clk = a_clock and req = "a_request ''GET'' ''/api/error''"
               and st = fresh_state and s = 500]
          centralizedErrorHandler_error_body
            [where err = "status_error 403 ''Cannot delete admin user''"
               and c = "\<lparr>status = 403, category = client\<rparr>" and logger = winston_logger
               and clk = a_clock and req = "a_request ''DELETE'' ''/api/users/1''"
               and st = fresh_state and s = 500]
    by (simp add: classify_database_failure classify_forbidden_delete fresh lg iso m500 m403
          request_context_example error_id_example createErrorResponse_def or_else_def)
qed

text \<open>
  When the call of \<open>logger.error\<close> in the \<open>catch\<close> block returns, the handler returns,
  writes at most one body, and writes none to a response whose head has gone out.
\<close>

lemma centralizedErrorHandler_catch_logged:
  assumes "lg_error logger ''Critical error in error handler middleware'' = None"
  shows "fst (centralizedErrorHandler logger clk err req st) = Returned"
    and "length (sent (st_res (snd (centralizedErrorHandler logger clk err req st))))
           \<le> Suc (length (sent (st_res st)))"
    and "headersSent (st_res st) \<Longrightarrow>
         sent (st_res (snd (centralizedErrorHandler logger clk err req st))) = sent (st_res st)"
proof -
  obtain r st1 where t: "handler_try logger clk err req st = (r, st1)"
    by (cases "handler_try logger clk err req st")
  have crit: "\<And>e log. log_call (lg_error logger) (critical_line clk err e) log
                 = Inr (log @ [critical_line clk err e])"
    using assms by (simp add: log_call_def critical_line_def)
  note s = handler_try_sent [OF t]
  show "fst (centralizedErrorHandler logger clk err req st) = Returned"
    by (cases r)
       (simp_all add: centralizedErrorHandler_def t crit res_json_def res_status_def Let_def)
  show "length (sent (st_res (snd (centralizedErrorHandler logger clk err req st))))
           \<le> Suc (length (sent (st_res st)))"
    using s
    by (cases r)
       (auto simp: centralizedErrorHandler_def t crit res_json_def res_status_def Let_def
          split: classified.splits)
  show "sent (st_res (snd (centralizedErrorHandler logger clk err req st))) = sent (st_res st)"
    if "headersSent (st_res st)"
    using s that
    by (cases r)
       (auto simp: centralizedErrorHandler_def t crit res_json_def res_status_def Let_def)
qed

text \<open>
  C8 at a failing input. The handler runs with the object that it binds to \<open>logger\<close>,
  the export of \<open>config/logger\<close>, on an error named \<open>Error\<close> with the message \<open>boom\<close>
  and a response whose head has not gone out. The call of \<open>logger.error\<close> in the \<open>try\<close>
  block raises a TypeError, the call of \<open>logger.error\<close> in the \<open>catch\<close> block raises it
  again, and the handler lets it through: no body is written, the minimal 500 body
  included.
\<close>

theorem centralizedErrorHandler_propagates_logger_failure:
  "centralizedErrorHandler config_logger_exports a_clock (named_error ''Error'' ''boom'')
       (a_request ''GET'' ''/api/error'') fresh_state
     = (Threw (Exn ''TypeError'' ''logger.error is not a function''), fresh_state)
   \<and> sent (st_res fresh_state) = []"
proof -
  have c: "classifyError (named_error ''Error'' ''boom'') = Entry \<lparr>status = 500, category = server\<rparr>"
    by code_simp
  show ?thesis
    by (simp add: centralizedErrorHandler_def handler_try_def createErrorLogEntry_def c Let_def
          log_call_def config_logger_exports_def fresh_state_def fresh_response_def)
qed

text \<open>
  The fallback at work, with a logger whose methods return. A failure with the explicit
  status 42 is classified as 42, Node refuses to write a head with that status, and the
  handler writes the minimal 500 body once. A failure named \<open>constructor\<close> is classified
  to an inherited member, \<open>createErrorLogEntry\<close> throws, and the handler writes the
  minimal 500 body as well.
\<close>

lemma centralizedErrorHandler_fallback_example:
  "fst (centralizedErrorHandler winston_logger a_clock (status_error 42 ''odd'')
          (a_request ''GET'' ''/api/error'') fresh_state) = Returned
   \<and> res_statusCode (st_res (snd (centralizedErrorHandler winston_logger a_clock
          (status_error 42 ''odd'') (a_request ''GET'' ''/api/error'') fresh_state))) = 500
   \<and> sent (st_res (snd (centralizedErrorHandler winston_logger a_clock
          (status_error 42 ''odd'') (a_request ''GET'' ''/api/error'') fresh_state)))
       = [minimal_body a_clock]"
  by (simp add: centralizedErrorHandler_def handler_try_def createErrorLogEntry_def Let_def
        log_call_def winston_logger_def fresh_state_def fresh_response_def classifyError_def
        status_error_def named_error_def no_error_def truthy_num_def num_or_def mk_def
        res_status_def res_set_def res_json_def)

lemma centralizedErrorHandler_inherited_member_example:
  "classifyError (named_error ''constructor'' ''odd'') = Member ''constructor''
   \<and> fst (centralizedErrorHandler winston_logger a_clock (named_error ''constructor'' ''odd'')
          (a_request ''GET'' ''/api/error'') fresh_state) = Returned
   \<and> sent (st_res (snd (centralizedErrorHandler winston_logger a_clock
          (named_error ''constructor'' ''odd'') (a_request ''GET'' ''/api/error'') fresh_state)))
       = [minimal_body a_clock]"
proof -
  have c: "classifyError (named_error ''constructor'' ''odd'') = Member ''constructor''"
    by code_simp
  show ?thesis
    by (simp add: c centralizedErrorHandler_def handler_try_def createErrorLogEntry_def Let_def
          log_call_def winston_logger_def fresh_state_def fresh_response_def
          res_status_def res_json_def)
qed


section \<open>Properties of the health route\<close>

lemma res_json_open:
  "\<not> headersSent res \<Longrightarrow> 100 \<le> c \<Longrightarrow> c \<le> 999 \<Longrightarrow>
   res_json body (res_status c res)
     = Inr (res\<lparr>res_statusCode := c, headersSent := True, sent := sent res @ [body]\<rparr>)"
  by (simp add: res_json_def res_status_def)

lemma no_failed_check:
  "(filter (\<lambda>kc. \<not> healthy (snd kc)) (checks_of env) = []) =
     (healthy (validateProcessHealth env) \<and> healthy (validateMemoryUsage env)
      \<and> healthy (validateConfiguration env) \<and> healthy (validateEnvironment env)
      \<and> healthy (validateDependencies env))"
  by (simp add: filter_empty_conv checks_of_def)

lemma performHealthChecks_cases:
  "performHealthChecks env =
     (if filter (\<lambda>kc. \<not> healthy (snd kc)) (checks_of env) = [] then Inr (checks_of env)
      else Inl (Exn ''Error'' (''Health check failures: '' @ join '', ''
             (map (\<lambda>kc. fst kc @ '': '' @ chk_message (snd kc))
                (filter (\<lambda>kc. \<not> healthy (snd kc)) (checks_of env))))))"
  by (simp add: performHealthChecks_def Let_def)

lemma get_health_pass:
  assumes "\<not> headersSent (st_res st)"
    and "filter (\<lambda>kc. \<not> healthy (snd kc)) (checks_of env) = []"
  shows "fst (get_health env req st) = Returned"
    and "st_res (snd (get_health env req st)) =
       (st_res st)\<lparr>res_statusCode := 200, headersSent := True,
          sent := sent (st_res st)
            @ [JObject (healthResponse env (route_correlationId ''health'' (h_clock env) req))]\<rparr>"
    and "st_log (snd (get_health env req st)) =
       st_log st @ [health_line env req ''http'' ''Health check successful''
                      (route_correlationId ''health'' (h_clock env) req) 200 ''ok''
                      [(''uptime'', p_uptime (h_process env))]]"
  using assms
  by (simp_all add: get_health_def performHealthChecks_cases Let_def res_json_open)

lemma get_health_fail:
  assumes "\<not> headersSent (st_res st)"
    and "filter (\<lambda>kc. \<not> healthy (snd kc)) (checks_of env) \<noteq> []"
  shows "fst (get_health env req st) = Returned"
    and "st_res (snd (get_health env req st)) =
       (st_res st)\<lparr>res_statusCode := 503, headersSent := True,
          sent := sent (st_res st)
            @ [JObject (health_errorResponse env
                 (Exn ''Error'' (''Health check failures: '' @ join '', ''
                    (map (\<lambda>kc. fst kc @ '': '' @ chk_message (snd kc))
                       (filter (\<lambda>kc. \<not> healthy (snd kc)) (checks_of env)))))
                 (route_correlationId ''health'' (h_clock env) req))]\<rparr>"
    and "st_log (snd (get_health env req st)) =
       st_log st @ [health_line env req ''error'' ''Health check failed''
                      (route_correlationId ''health'' (h_clock env) req) 503 ''error''
                      [(''error'',
                          JObject [(''name'', JString ''Error''),
                                   (''message'', JString (''Health check failures: '' @ join '', ''
                    (map (\<lambda>kc. fst kc @ '': '' @ chk_message (snd kc))
                       (filter (\<lambda>kc. \<not> healthy (snd kc)) (checks_of env)))))])]]"
  using assms
  by (simp_all add: get_health_def performHealthChecks_cases Let_def health_catch_def
        res_json_open)

text \<open>
  C1. For a request that reaches the route before any response has gone out, the route
  returns; \<open>performHealthChecks\<close> returns the report, instead of throwing, exactly when
  the five checks (process, memory, configuration, environment, dependencies) are all
  healthy, and exactly then the status is 200. When all five are healthy the one body
  written is the full report: status \<open>ok\<close>, time, service, version, uptime, environment,
  the server (host, port, Node version), the process (pid, the five memory counts, the
  processor times) and the identifier of the route. When one is not, the status is 503
  and the one body written has the status \<open>error\<close>, the message \<open>Health check failed\<close>
  and an error named \<open>Error\<close> whose message is \<open>Health check failures: \<close> followed by
  the failing checks in the order process, memory, configuration, environment,
  dependencies, each as its name, a colon and its message, joined by a comma and a
  space.
\<close>

theorem get_health_all_or_nothing:
  assumes "\<not> headersSent (st_res st)"
  shows "fst (get_health env req st) = Returned
    \<and> ((case performHealthChecks env of Inr checks \<Rightarrow> True | Inl e \<Rightarrow> False)
         = (healthy (validateProcessHealth env) \<and> healthy (validateMemoryUsage env)
            \<and> healthy (validateConfiguration env) \<and> healthy (validateEnvironment env)
            \<and> healthy (validateDependencies env)))
    \<and> ((res_statusCode (st_res (snd (get_health env req st))) = 200)
         = (healthy (validateProcessHealth env) \<and> healthy (validateMemoryUsage env)
            \<and> healthy (validateConfiguration env) \<and> healthy (validateEnvironment env)
            \<and> healthy (validateDependencies env)))
    \<and> (if healthy (validateProcessHealth env) \<and> healthy (validateMemoryUsage env)
            \<and> healthy (validateConfiguration env) \<and> healthy (validateEnvironment env)
            \<and> healthy (validateDependencies env)
        then res_statusCode (st_res (snd (get_health env req st))) = 200
           \<and> sent (st_res (snd (get_health env req st)))
               = sent (st_res st)
                 @ [JObject
                     [(''status'', JString ''ok''),
                      (''timestamp'', JString (now_iso (h_clock env))),
                      (''service'', JString ''hao-backprop-test''),
                      (''version'',
                         JString (or_else (p_env (h_process env) ''npm_package_version'') ''1.0.0'')),
                      (''uptime'', p_uptime (h_process env)),
                      (''environment'', cfg env NODE_ENV),
                      (''server'',
                         JObject [(''host'', cfg env HOST), (''port'', cfg env PORT),
                                  (''nodeVersion'',
                                     JString (version_string (p_version (h_process env))))]),
                      (''process'',
                         JObject
                          [(''pid'', JNumber (int (p_pid (h_process env)))),
                           (''memory'',
                              JObject
                               [(''rss'', JNumber (int (mu_rss (p_memoryUsage (h_process env))))),
                                (''heapTotal'',
                                   JNumber (int (mu_heapTotal (p_memoryUsage (h_process env))))),
                                (''heapUsed'',
                                   JNumber (int (mu_heapUsed (p_memoryUsage (h_process env))))),
                                (''external'',
                                   JNumber (int (mu_external (p_memoryUsage (h_process env))))),
                                (''arrayBuffers'',
                                   JNumber (int (mu_arrayBuffers (p_memoryUsage (h_process env)))))]),
                           (''cpuUsage'',
                              JObject
                               [(''user'', JNumber (int (fst (p_cpuUsage (h_process env))))),
                                (''system'', JNumber (int (snd (p_cpuUsage (h_process env)))))])]),
                      (''correlationId'',
                         JString
                          (or_else
                            (str_or (req_header req ''x-correlation-id'')
                               (req_header req ''x-request-id''))
                            (''health-'' @ show_nat (now_ms (h_clock env)) @ ''-''
                             @ random_suffix (h_clock env))))]]
        else res_statusCode (st_res (snd (get_health env req st))) = 503
           \<and> sent (st_res (snd (get_health env req st)))
               = sent (st_res st)
                 @ [JObject
                     [(''status'', JString ''error''),
                      (''timestamp'', JString (now_iso (h_clock env))),
                      (''service'', JString ''hao-backprop-test''),
                      (''message'', JString ''Health check failed''),
                      (''error'',
                         JObject
                          [(''name'', JString ''Error''),
                           (''message'',
                              JString
                               (''Health check failures: ''
                                @ join '', ''
                                   (map (\<lambda>kc. fst kc @ '': '' @ chk_message (snd kc))
                                      (filter (\<lambda>kc. \<not> healthy (snd kc))
                                         [(''process'', validateProcessHealth env),
                                          (''memory'', validateMemoryUsage env),
                                          (''configuration'', validateConfiguration env),
                                          (''environment'', validateEnvironment env),
                                          (''dependencies'', validateDependencies env)])))),
                           (''type'', JString ''Error'')]),
                      (''correlationId'',
                         JString
                          (or_else
                            (str_or (req_header req ''x-correlation-id'')
                               (req_header req ''x-request-id''))
                            (''health-'' @ show_nat (now_ms (h_clock env)) @ ''-''
                             @ random_suffix (h_clock env)))),
                      (''environment'', cfg env NODE_ENV)]])"
proof (cases "filter (\<lambda>kc. \<not> healthy (snd kc)) (checks_of env) = []")
  case True
  from True have all: "healthy (validateProcessHealth env) \<and> healthy (validateMemoryUsage env)
            \<and> healthy (validateConfiguration env) \<and> healthy (validateEnvironment env)
            \<and> healthy (validateDependencies env)"
    by (simp only: no_failed_check)
  have p: "performHealthChecks env = Inr (checks_of env)"
    using True by (simp add: performHealthChecks_cases)
  note g = get_health_pass [OF assms True, of req]
  show ?thesis
    unfolding g(1) g(2) p
    using all
    by (simp add: healthResponse_def route_correlationId_def memory_json_def Let_def)
next
  case False
  from False have some: "\<not> (healthy (validateProcessHealth env) \<and> healthy (validateMemoryUsage env)
            \<and> healthy (validateConfiguration env) \<and> healthy (validateEnvironment env)
            \<and> healthy (validateDependencies env))"
    by (simp only: no_failed_check) simp
  have p: "\<exists>e. performHealthChecks env = Inl e"
    using False by (simp add: performHealthChecks_cases)
  then obtain e where pe: "performHealthChecks env = Inl e" ..
  note g = get_health_fail [OF assms False, of req]
  have c: "checks_of env = [(''process'', validateProcessHealth env),
                                          (''memory'', validateMemoryUsage env),
                                          (''configuration'', validateConfiguration env),
                                          (''environment'', validateEnvironment env),
                                          (''dependencies'', validateDependencies env)]"
    by (simp add: checks_of_def)
  show ?thesis
    unfolding g(1) g(2) pe c [symmetric]
    using some
    by (simp add: health_errorResponse_def route_correlationId_def exn_constructor_name_def)
qed


text \<open>The example environments, evaluated.\<close>

lemma round_mb_examples:
  "round_mb 52428800 = 50" "round_mb 209715200 = 200" "round_mb 125829120 = 120"
  "round_mb 20000000 = 19" "round_mb 15000000 = 14"
  by (simp_all add: round_mb_def)

lemma an_env_sel:
  "h_config (an_env b r e) = b" "h_process (an_env b r e) = a_process r e"
  "h_clock (an_env b r e) = a_clock"
  by (simp_all add: an_env_def)

lemma a_process_sel:
  "p_uptime (a_process r e) = JNumber 42"
  "p_memoryUsage (a_process r e)
     = \<lparr>mu_rss = r, mu_heapTotal = 20000000, mu_heapUsed = 15000000,
        mu_external = 1000000, mu_arrayBuffers = 10000\<rparr>"
  "p_cpuUsage (a_process r e) = (1000, 500)" "p_pid (a_process r e) = 4711"
  "p_version (a_process r e) = (18, 17, 0)"
  "p_env (a_process r e) ''npm_package_version'' = None"
  "p_env (a_process r e) ''NODE_ENV'' = Some e"
  by (simp_all add: a_process_def)

lemma version_example: "version_string (18, 17, 0) = ''v18.17.0''"
  by (simp add: version_string_def show_nat_examples)

lemma cfg_fallback:
  "cfg (an_env Fallback r e) NODE_ENV = JString (if e = [] then ''development'' else e)"
  "cfg (an_env Fallback r e) HOST = JString ''127.0.0.1''"
  "cfg (an_env Fallback r e) PORT = JNumber 3000"
  by (simp_all add: cfg_def an_env_def a_process_def or_else_def truthy_str_def)

lemma cfg_module: "cfg (an_env (ModuleExport m) r e) k = JUndefined"
  by (simp add: cfg_def an_env_def)

lemma healthy_process: "healthy (validateProcessHealth env)"
  by (simp add: validateProcessHealth_def Let_def)

lemma healthy_environment_example: "healthy (validateEnvironment (an_env b r e))"
  by (simp add: validateEnvironment_def Let_def an_env_def a_process_def)

lemma healthy_dependencies_example: "healthy (validateDependencies (an_env b r e))"
  by (simp add: validateDependencies_def Let_def an_env_def a_process_def
        checkExpressDependency_def checkLoggerDependency_def checkConfigDependency_def
        split: config_binding.splits)

lemma healthy_configuration_fallback: "healthy (validateConfiguration (an_env Fallback r e))"
  by (simp add: validateConfiguration_def Let_def cfg_fallback)

lemma configuration_module:
  "validateConfiguration (an_env (ModuleExport m) r e) =
     \<lparr>healthy = False,
      chk_message = ''Missing required configuration: NODE_ENV, HOST, PORT'',
      chk_details = [(''missing'', JArray [JString ''NODE_ENV'', JString ''HOST'', JString ''PORT''])]\<rparr>"
  by (simp add: validateConfiguration_def Let_def cfg_module key_name_def)

lemma memory_example_50:
  "validateMemoryUsage (an_env Fallback 52428800 ''development'') =
     \<lparr>healthy = True, chk_message = ''Memory usage within limits'',
      chk_details = [(''heapUsed'', JString ''14MB''), (''heapTotal'', JString ''19MB''),
                     (''rss'', JString ''50MB''), (''threshold'', JString ''100MB'')]\<rparr>"
  by (simp add: validateMemoryUsage_def Let_def memoryThresholdMB_def cfg_fallback
        round_mb_examples show_nat_examples an_env_sel a_process_def)

lemma memory_example_200:
  "validateMemoryUsage (an_env Fallback 209715200 ''development'') =
     \<lparr>healthy = False, chk_message = ''Memory usage exceeded threshold: 200MB > 100MB'',
      chk_details = [(''heapUsed'', JString ''14MB''), (''heapTotal'', JString ''19MB''),
                     (''rss'', JString ''200MB''), (''threshold'', JString ''100MB'')]\<rparr>"
  by (simp add: validateMemoryUsage_def Let_def memoryThresholdMB_def cfg_fallback
        round_mb_examples show_nat_examples an_env_sel a_process_def)

lemma memory_example_module_200:
  "validateMemoryUsage (an_env (ModuleExport production_module) 209715200 ''production'') =
     \<lparr>healthy = False, chk_message = ''Memory usage exceeded threshold: 200MB > 100MB'',
      chk_details = [(''heapUsed'', JString ''14MB''), (''heapTotal'', JString ''19MB''),
                     (''rss'', JString ''200MB''), (''threshold'', JString ''100MB'')]\<rparr>"
  by (simp add: validateMemoryUsage_def Let_def memoryThresholdMB_def cfg_module
        round_mb_examples show_nat_examples an_env_sel a_process_def)

lemma request_headers_example:
  "req_header ((a_request m u)\<lparr>req_correlationId := c\<rparr>) ''x-correlation-id'' = None"
  "req_header ((a_request m u)\<lparr>req_correlationId := c\<rparr>) ''x-request-id'' = None"
  "req_header (a_request m u) ''x-correlation-id'' = None"
  "req_header (a_request m u) ''x-request-id'' = None"
  by (simp_all add: a_request_def req_header_def)

lemma str_or_None: "str_or None None = None"
  by (simp add: str_or_def truthy_str_def)

theorem get_health_all_or_nothing_witness:
  "\<not> headersSent (st_res fresh_state)
   \<and> res_statusCode (st_res (snd (get_health (an_env Fallback 52428800 ''development'')
          (a_request ''GET'' ''/health'') fresh_state))) = 200
   \<and> sent (st_res (snd (get_health (an_env Fallback 52428800 ''development'')
          (a_request ''GET'' ''/health'') fresh_state)))
      = [JObject
          [(''status'', JString ''ok''),
           (''timestamp'', JString ''2023-11-14T22:13:20.000Z''),
           (''service'', JString ''hao-backprop-test''),
           (''version'', JString ''1.0.0''),
           (''uptime'', JNumber 42),
           (''environment'', JString ''development''),
           (''server'',
              JObject [(''host'', JString ''127.0.0.1''), (''port'', JNumber 3000),
                       (''nodeVersion'', JString ''v18.17.0'')]),
           (''process'',
              JObject
               [(''pid'', JNumber 4711),
                (''memory'',
                   JObject [(''rss'', JNumber 52428800), (''heapTotal'', JNumber 20000000),
                            (''heapUsed'', JNumber 15000000), (''external'', JNumber 1000000),
                            (''arrayBuffers'', JNumber 10000)]),
                (''cpuUsage'', JObject [(''user'', JNumber 1000), (''system'', JNumber 500)])]),
           (''correlationId'', JString ''health-1700000000000-4fzyo82mv'')]]
   \<and> res_statusCode (st_res (snd (get_health (an_env Fallback 209715200 ''development'')
          (a_request ''GET'' ''/health'') fresh_state))) = 503
   \<and> sent (st_res (snd (get_health (an_env Fallback 209715200 ''development'')
          (a_request ''GET'' ''/health'') fresh_state)))
      = [JObject
          [(''status'', JString ''error''),
           (''timestamp'', JString ''2023-11-14T22:13:20.000Z''),
           (''service'', JString ''hao-backprop-test''),
           (''message'', JString ''Health check failed''),
           (''error'',
              JObject
               [(''name'', JString ''Error''),
                (''message'',
                   JString ''Health check failures: memory: Memory usage exceeded threshold: 200MB > 100MB''),
                (''type'', JString ''Error'')]),
           (''correlationId'', JString ''health-1700000000000-4fzyo82mv''),
           (''environment'', JString ''development'')]]
   \<and> res_statusCode (st_res (snd (get_health
          (an_env (ModuleExport production_module) 209715200 ''production'')
          (a_request ''GET'' ''/health'') fresh_state))) = 503
   \<and> sent (st_res (snd (get_health
          (an_env (ModuleExport production_module) 209715200 ''production'')
          (a_request ''GET'' ''/health'') fresh_state)))
      = [JObject
          [(''status'', JString ''error''),
           (''timestamp'', JString ''2023-11-14T22:13:20.000Z''),
           (''service'', JString ''hao-backprop-test''),
           (''message'', JString ''Health check failed''),
           (''error'',
              JObject
               [(''name'', JString ''Error''),
                (''message'',
                   JString ''Health check failures: memory: Memory usage exceeded threshold: 200MB > 100MB, configuration: Missing required configuration: NODE_ENV, HOST, PORT''),
                (''type'', JString ''Error'')]),
           (''correlationId'', JString ''health-1700000000000-4fzyo82mv''),
           (''environment'', JUndefined)]]"
proof -
  have fresh: "\<not> headersSent (st_res fresh_state)" "sent (st_res fresh_state) = []"
    by (simp_all add: fresh_state_def fresh_response_def)
  have clk: "now_iso a_clock = ''2023-11-14T22:13:20.000Z''"
    by (simp add: a_clock_def)
  show ?thesis
    using get_health_all_or_nothing [OF fresh(1), of "an_env Fallback 52428800 ''development''"
            "a_request ''GET'' ''/health''"]
          get_health_all_or_nothing [OF fresh(1), of "an_env Fallback 209715200 ''development''"
            "a_request ''GET'' ''/health''"]
          get_health_all_or_nothing [OF fresh(1),
            of "an_env (ModuleExport production_module) 209715200 ''production''"
            "a_request ''GET'' ''/health''"]
    by (simp add: fresh clk healthy_process healthy_environment_example
          healthy_dependencies_example healthy_configuration_fallback memory_example_50
          memory_example_200 memory_example_module_200 configuration_module
          an_env_sel a_process_sel version_example cfg_fallback cfg_module
          request_headers_example str_or_None or_else_def error_id_example)
qed


section \<open>The memory check\<close>


lemma memoryThresholdMB_fallback:
  "h_config env = Fallback \<Longrightarrow>
   memoryThresholdMB env
     = (if p_env (h_process env) ''NODE_ENV'' = Some ''production'' then 150 else 100)"
  by (auto simp: memoryThresholdMB_def cfg_def or_else_def split: option.splits)

lemma memoryThresholdMB_module:
  "h_config env = ModuleExport m \<Longrightarrow> memoryThresholdMB env = 100"
  by (simp add: memoryThresholdMB_def cfg_def)

lemma memory_breach_503:
  assumes "\<not> headersSent (st_res st)" and "\<not> healthy (validateMemoryUsage env)"
  shows "res_statusCode (st_res (snd (get_health env req st))) = 503"
    and "(''memory'', validateMemoryUsage env)
           \<in> set (filter (\<lambda>kc. \<not> healthy (snd kc)) (checks_of env))"
proof -
  from assms(2) have "filter (\<lambda>kc. \<not> healthy (snd kc)) (checks_of env) \<noteq> []"
    by (simp add: no_failed_check)
  from get_health_fail(2) [OF assms(1) this, of req]
  show "res_statusCode (st_res (snd (get_health env req st))) = 503" by simp
  from assms(2)
  show "(''memory'', validateMemoryUsage env)
           \<in> set (filter (\<lambda>kc. \<not> healthy (snd kc)) (checks_of env))"
    by (simp add: checks_of_def)
qed

lemma memory_example_module:
  "validateMemoryUsage (an_env (ModuleExport production_module) 125829120 ''production'') =
     \<lparr>healthy = False, chk_message = ''Memory usage exceeded threshold: 120MB > 100MB'',
      chk_details = [(''heapUsed'', JString ''14MB''), (''heapTotal'', JString ''19MB''),
                     (''rss'', JString ''120MB''), (''threshold'', JString ''100MB'')]\<rparr>"
  by (simp add: validateMemoryUsage_def Let_def memoryThresholdMB_def cfg_module
        round_mb_examples show_nat_examples an_env_sel a_process_def)

text \<open>
  C3 at a failing input. The process runs in production (\<open>NODE_ENV\<close> is \<open>production\<close>,
  and so is \<open>app.env\<close> of the configuration module), the router has bound \<open>config\<close> to
  the export of that module, and the resident set size is 120 MB. The export has no key
  \<open>NODE_ENV\<close>, so the check compares against 100 MB, not 150 MB: it reports the memory
  as exceeded and the route answers 503.
\<close>

theorem production_threshold_with_config_module:
  "app_env production_module = ''production''
   \<and> p_env (h_process (an_env (ModuleExport production_module) 125829120 ''production'')) ''NODE_ENV''
       = Some ''production''
   \<and> round_mb (mu_rss (p_memoryUsage (h_process
         (an_env (ModuleExport production_module) 125829120 ''production'')))) = 120
   \<and> memoryThresholdMB (an_env (ModuleExport production_module) 125829120 ''production'') = 100
   \<and> healthy (validateMemoryUsage (an_env (ModuleExport production_module) 125829120 ''production''))
       = False
   \<and> chk_message (validateMemoryUsage (an_env (ModuleExport production_module) 125829120 ''production''))
       = ''Memory usage exceeded threshold: 120MB > 100MB''
   \<and> res_statusCode (st_res (snd (get_health
         (an_env (ModuleExport production_module) 125829120 ''production'')
         (a_request ''GET'' ''/health'') fresh_state))) = 503"
proof -
  let ?env = "an_env (ModuleExport production_module) 125829120 ''production''"
  have fresh: "\<not> headersSent (st_res fresh_state)"
    by (simp add: fresh_state_def fresh_response_def)
  have a: "app_env production_module = ''production''"
    by (simp add: production_module_def)
  have b: "p_env (h_process ?env) ''NODE_ENV'' = Some ''production''"
    by (simp add: an_env_sel a_process_def)
  have c: "round_mb (mu_rss (p_memoryUsage (h_process ?env))) = 120"
    by (simp add: an_env_sel a_process_def round_mb_examples)
  have d: "memoryThresholdMB ?env = 100"
    by (simp add: memoryThresholdMB_def cfg_module)
  have e: "healthy (validateMemoryUsage ?env) = False"
    by (simp add: memory_example_module)
  have f: "chk_message (validateMemoryUsage ?env)
             = ''Memory usage exceeded threshold: 120MB > 100MB''"
    by (simp add: memory_example_module)
  from e have "\<not> healthy (validateMemoryUsage ?env)" by simp
  from memory_breach_503(1) [OF fresh this, of "a_request ''GET'' ''/health''"]
  have g: "res_statusCode (st_res (snd (get_health ?env (a_request ''GET'' ''/health'')
             fresh_state))) = 503" .
  show ?thesis
    by (intro conjI) (rule a, rule b, rule c, rule d, rule e, rule f, rule g)
qed


section \<open>Properties of the correlation identifier\<close>

text \<open>
  On a response whose head has not gone out and with a logger whose \<open>info\<close> returns, the
  middleware stores the fresh identifier in the request, sets it as the header
  \<open>X-Correlation-ID\<close>, logs it and calls \<open>next()\<close>. The error handler reads the
  identifier of the request first.
\<close>

lemma correlationIdMiddleware_assigns:
  assumes "\<not> headersSent (st_res st)" and "lg_info logger ''Request initiated'' = None"
  shows "correlationIdMiddleware logger clk req st
     = (Returned, req\<lparr>req_correlationId := Some (uuid4 clk)\<rparr>,
        \<lparr>st_res = (st_res st)\<lparr>res_headers :=
             set_header ''X-Correlation-ID'' (uuid4 clk) (res_headers (st_res st))\<rparr>,
         st_log = st_log st
           @ [initiated_line clk (req\<lparr>req_correlationId := Some (uuid4 clk)\<rparr>) (uuid4 clk)]\<rparr>)"
  using assms
  by (simp add: correlationIdMiddleware_def Let_def generateCorrelationId_def res_set_def
        log_call_def initiated_line_def)

lemma header_after_set: "map_of (set_header n v hs) n = Some v"
  by (induction hs) (auto simp: set_header_def)

lemma extractRequestContext_correlationId:
  "req_correlationId req = Some u \<Longrightarrow> u \<noteq> [] \<Longrightarrow>
   ctx_correlationId (extractRequestContext clk req) = u"
  by (simp add: extractRequestContext_def str_or_def truthy_str_def or_else_def)




end
